theory Spec2Isabelle
  imports Main
begin

section \<open>Python values\<close>

text \<open>
  A finite double is a dyadic rational \<open>m * 2 ^ e\<close>; \<open>json.loads\<close> also accepts the
  literals NaN and Infinity.
\<close>

datatype pyfloat = FNan | FInf | FFinite int int

text \<open>
  The value \<open>json.loads\<close> returns (and \<open>json.dumps\<close> accepts). A Python dict is an
  association list with distinct keys, in insertion order; Python's \<open>None\<close> is \<open>JNull\<close>.
  The same type serves for the values of keyword arguments and of response attributes
  (an \<open>IntEnum\<close> member is its integer).
\<close>

datatype json =
    JNull
  | JBool bool
  | JInt int
  | JFloat pyfloat
  | JStr string
  | JArr "json list"
  | JObj "(string \<times> json) list"

text \<open>The exceptions the modelled code can raise.\<close>

datatype exn =
    TimeoutException
  | TransportError string
  | HTTPStatusError
  | JSONDecodeError
  | KeyError string
  | TypeError
  | ValueError
  | OverflowError
  | AssertionError
  | AttributeError string
  | ApiError json int
  | InvalidFrameException

text \<open>\<open>obj[key]\<close> with a string key: only a dict can be subscripted by a string.\<close>

fun py_getitem :: "json \<Rightarrow> string \<Rightarrow> exn + json" where
  "py_getitem (JObj kvs) k = (case map_of kvs k of None \<Rightarrow> Inl (KeyError k) | Some v \<Rightarrow> Inr v)"
| "py_getitem _ k = Inl TypeError"

text \<open>Truthiness of a value, as \<open>if self._session\<close> tests it.\<close>

fun py_truthy :: "json \<Rightarrow> bool" where
  "py_truthy JNull = False"
| "py_truthy (JBool b) = b"
| "py_truthy (JInt n) = (n \<noteq> 0)"
| "py_truthy (JFloat FNan) = True"
| "py_truthy (JFloat FInf) = True"
| "py_truthy (JFloat (FFinite m e)) = (m \<noteq> 0)"
| "py_truthy (JStr s) = (s \<noteq> [])"
| "py_truthy (JArr xs) = (xs \<noteq> [])"
| "py_truthy (JObj kvs) = (kvs \<noteq> [])"

section \<open>The cloud client: constants and construction\<close>

definition CLIENT_TYPE :: int where "CLIENT_TYPE = 1"
definition FORMAT :: int where "FORMAT = 2"
definition LANGUAGE :: string where "LANGUAGE = ''en_US''"
definition APP_ID :: string where "APP_ID = ''1010''"
definition SRC :: string where "SRC = ''1010''"
definition DEVICE_ID :: string where "DEVICE_ID = ''c1acad8939ac0d7d''"
definition BASE_URL :: string where "BASE_URL = ''https://mp-prod.appsmb.com''"
definition BASE_URL_CHINA :: string where "BASE_URL_CHINA = ''https://mp-prod.smartmidea.net''"
definition RETRIES :: int where "RETRIES = 3"

text \<open>
  The fields of a \<open>Cloud\<close> instance. \<open>_login_id\<close> starts as \<open>None\<close> (\<open>JNull\<close>),
  \<open>_session\<close> as the empty dict, \<open>_access_token\<close> as the empty string.
\<close>

record cloud =
  account :: string
  password :: string
  login_id :: json
  session :: json
  access_token :: json
  base_url :: string

text \<open>\<open>os.getenv(name, default)\<close> on an environment that may lack the variable.\<close>

definition getenv :: "string option \<Rightarrow> string \<Rightarrow> string" where
  "getenv var dflt = (case var of None \<Rightarrow> dflt | Some v \<Rightarrow> v)"

text \<open>
  \<open>Cloud.__init__\<close>; the first argument is the state of the environment variable
  \<open>USE_CHINA_SERVER\<close>.
\<close>

definition Cloud_init :: "string option \<Rightarrow> string \<Rightarrow> string \<Rightarrow> bool \<Rightarrow> cloud" where
  "Cloud_init env_china acct pwd use_china_server =
     (let use_china_server = (if getenv env_china ''0'' = ''1'' then True else use_china_server)
      in \<lparr> account = acct, password = pwd, login_id = JNull, session = JObj [],
           access_token = JStr '''',
           base_url = (if use_china_server then BASE_URL_CHINA else BASE_URL) \<rparr>)"

section \<open>Python builtins the client relies on\<close>

text \<open>
  \<open>int(x)\<close> on a decoded JSON value. A character of a string is a code point below 256.
  On a string, CPython strips surrounding whitespace (tab, line feed, vertical tab, form
  feed, carriage return and space; beyond ASCII also the code points 133 and 160), then
  reads an optional sign and decimal digits, single underscores allowed between digits,
  and refuses a string of more than 4300 digits (the default limit of
  \<open>sys.set_int_max_str_digits\<close>).
\<close>

definition is_space :: "char \<Rightarrow> bool" where
  "is_space c = (of_char c \<in> set [9, 10, 11, 12, 13, 32, 133, 160 :: nat])"

definition MAX_STR_DIGITS :: nat where "MAX_STR_DIGITS = 4300"

definition is_digit :: "char \<Rightarrow> bool" where
  "is_digit c = (48 \<le> (of_char c :: nat) \<and> (of_char c :: nat) \<le> 57)"

definition digit_val :: "char \<Rightarrow> int" where
  "digit_val c = int (of_char c) - 48"

definition strip :: "string \<Rightarrow> string" where
  "strip s = rev (dropWhile is_space (rev (dropWhile is_space s)))"

fun parse_digits :: "string \<Rightarrow> int \<Rightarrow> int option" where
  "parse_digits [] acc = Some acc"
| "parse_digits (c # cs) acc =
     (if is_digit c then parse_digits cs (acc * 10 + digit_val c)
      else if c = CHR ''_'' then
        (case cs of
           [] \<Rightarrow> None
         | d # ds \<Rightarrow> if is_digit d then parse_digits cs acc else None)
      else None)"

definition int_of_str :: "string \<Rightarrow> int option" where
  "int_of_str s =
     (case strip s of
        [] \<Rightarrow> None
      | c # cs \<Rightarrow>
          (let sgn = (if c = CHR ''-'' then - 1 else 1);
               ds = (if c = CHR ''-'' \<or> c = CHR ''+'' then cs else c # cs)
           in case ds of
                [] \<Rightarrow> None
              | d # _ \<Rightarrow>
                  if is_digit d \<and> length (filter is_digit ds) \<le> MAX_STR_DIGITS
                  then map_option (\<lambda>n. sgn * n) (parse_digits ds 0)
                  else None))"

definition trunc_dyadic :: "int \<Rightarrow> int \<Rightarrow> int" where
  "trunc_dyadic m e =
     (if 0 \<le> e then m * 2 ^ nat e
      else if 0 \<le> m then m div 2 ^ nat (- e)
      else - ((- m) div 2 ^ nat (- e)))"

fun py_int :: "json \<Rightarrow> exn + int" where
  "py_int JNull = Inl TypeError"
| "py_int (JBool b) = Inr (if b then 1 else 0)"
| "py_int (JInt n) = Inr n"
| "py_int (JFloat FNan) = Inl ValueError"
| "py_int (JFloat FInf) = Inl OverflowError"
| "py_int (JFloat (FFinite m e)) = Inr (trunc_dyadic m e)"
| "py_int (JStr s) = (case int_of_str s of None \<Rightarrow> Inl ValueError | Some n \<Rightarrow> Inr n)"
| "py_int (JArr xs) = Inl TypeError"
| "py_int (JObj kvs) = Inl TypeError"

text \<open>\<open>for x in v\<close>: a list yields its items, a dict its keys, a string its characters.\<close>

fun py_iter :: "json \<Rightarrow> exn + json list" where
  "py_iter (JArr xs) = Inr xs"
| "py_iter (JObj kvs) = Inr (map (\<lambda>kv. JStr (fst kv)) kvs)"
| "py_iter (JStr s) = Inr (map (\<lambda>c. JStr [c]) s)"
| "py_iter _ = Inl TypeError"

text \<open>\<open>d[k] = v\<close> and \<open>d.update(other)\<close> on a dict: an existing key keeps its place.\<close>

fun dict_set :: "(string \<times> json) list \<Rightarrow> string \<Rightarrow> json \<Rightarrow> (string \<times> json) list" where
  "dict_set [] k v = [(k, v)]"
| "dict_set (kv # d) k v = (if fst kv = k then (k, v) # d else kv # dict_set d k v)"

fun dict_update :: "(string \<times> json) list \<Rightarrow> (string \<times> json) list \<Rightarrow> (string \<times> json) list" where
  "dict_update d [] = d"
| "dict_update d (kv # other) = dict_update (dict_set d (fst kv) (snd kv)) other"

text \<open>
  \<open>datetime.now().strftime("%Y%m%d%H%M%S")\<close>: zero-padded decimal fields. (Below the
  year 1000 the padding of \<open>%Y\<close> depends on the platform; the clock never reads such a year.)
\<close>

record datetime =
  year :: nat
  month :: nat
  day :: nat
  hour :: nat
  minute :: nat
  second :: nat

fun dec :: "nat \<Rightarrow> string" where
  "dec n = (if n < 10 then [''0123456789'' ! n] else dec (n div 10) @ [''0123456789'' ! (n mod 10)])"

definition zero_pad :: "nat \<Rightarrow> nat \<Rightarrow> string" where
  "zero_pad width n = replicate (width - length (dec n)) CHR ''0'' @ dec n"

definition strftime_YmdHMS :: "datetime \<Rightarrow> string" where
  "strftime_YmdHMS t =
     zero_pad 4 (year t) @ zero_pad 2 (month t) @ zero_pad 2 (day t) @
     zero_pad 2 (hour t) @ zero_pad 2 (minute t) @ zero_pad 2 (second t)"

section \<open>The world the client talks to\<close>

text \<open>
  What \<open>httpx\<close> hands back for one POST: the call raises, or returns a response.
  Of a response the client uses \<open>raise_for_status()\<close> (\<open>status_error\<close> says whether it
  raises) and \<open>json.loads(response.text)\<close> (\<open>loaded\<close>, \<open>None\<close> when the text is not JSON).
\<close>

record http_response =
  status_error :: bool
  loaded :: "json option"

datatype post_outcome = Raises exn | Returns http_response

text \<open>
  A request as posted. The content is \<open>json.dumps(body)\<close>, kept as the body it encodes.
\<close>

record request =
  url :: string
  headers :: "(string \<times> json) list"
  content :: json

text \<open>The observable effects, in the order they happen.\<close>

datatype event =
    EvTokenHex nat string
  | EvSign json string
  | EvAcquire
  | EvPost request
  | EvRelease

text \<open>
  The world: what the next POSTs, random tokens and clock readings will return
  (index 0 is the next one), and the trace of effects so far.
\<close>

record world =
  net :: "nat \<Rightarrow> post_outcome"
  hexes :: "nat \<Rightarrow> string"
  urlsafes :: "nat \<Rightarrow> string"
  clock :: "nat \<Rightarrow> datetime"
  trace :: "event list"

definition shift :: "(nat \<Rightarrow> 'a) \<Rightarrow> (nat \<Rightarrow> 'a)" where
  "shift f = (\<lambda>n. f (Suc n))"

definition emit :: "event \<Rightarrow> world \<Rightarrow> world" where
  "emit ev w = w\<lparr>trace := trace w @ [ev]\<rparr>"

definition token_hex :: "nat \<Rightarrow> world \<Rightarrow> string \<times> world" where
  "token_hex nbytes w =
     (hexes w 0, emit (EvTokenHex nbytes (hexes w 0)) (w\<lparr>hexes := shift (hexes w)\<rparr>))"

definition token_urlsafe :: "nat \<Rightarrow> world \<Rightarrow> string \<times> world" where
  "token_urlsafe nbytes w = (urlsafes w 0, w\<lparr>urlsafes := shift (urlsafes w)\<rparr>)"

definition timestamp :: "world \<Rightarrow> string \<times> world" where
  "timestamp w = (strftime_YmdHMS (clock w 0), w\<lparr>clock := shift (clock w)\<rparr>)"

text \<open>\<open>client.post(...)\<close>: the world after the POST; its outcome is \<open>net w 0\<close>.\<close>

definition posted :: "request \<Rightarrow> world \<Rightarrow> world" where
  "posted req w = emit (EvPost req) (w\<lparr>net := shift (net w)\<rparr>)"

text \<open>
  The \<open>security\<close> object of \<open>msmart.security\<close>, which is outside the modelled files: its
  three functions are parameters.
\<close>

record security =
  new_sign :: "json \<Rightarrow> string \<Rightarrow> string"
  encrypt_iam_password :: "json \<Rightarrow> string \<Rightarrow> string"
  encryptPassword :: "json \<Rightarrow> string \<Rightarrow> string"

section \<open>The cloud client: requests\<close>

definition raise_for_status :: "http_response \<Rightarrow> exn + unit" where
  "raise_for_status r = (if status_error r then Inl HTTPStatusError else Inr ())"

text \<open>\<open>Cloud._parse_response\<close>\<close>

definition parse_response :: "http_response \<Rightarrow> exn + json" where
  "parse_response response =
     (case loaded response of
        None \<Rightarrow> Inl JSONDecodeError
      | Some body \<Rightarrow>
          (case py_getitem body ''code'' of
             Inl e \<Rightarrow> Inl e
           | Inr c \<Rightarrow>
               (case py_int c of
                  Inl e \<Rightarrow> Inl e
                | Inr response_code \<Rightarrow>
                    if response_code = 0 then py_getitem body ''data''
                    else (case py_getitem body ''msg'' of
                            Inl e \<Rightarrow> Inl e
                          | Inr m \<Rightarrow> Inl (ApiError m response_code)))))"

text \<open>
  \<open>Cloud._post_request\<close>: the retry loop. Falling out of the loop returns \<open>None\<close>.
\<close>

function post_request :: "request \<Rightarrow> int \<Rightarrow> world \<Rightarrow> (exn + json) \<times> world" where
  "post_request req retries w =
     (if retries > 0 then
        (case net w 0 of
           Raises e \<Rightarrow>
             if e = TimeoutException then
               (if retries - 1 = 0 then (Inl e, posted req w)
                else post_request req (retries - 1) (posted req w))
             else (Inl e, posted req w)
         | Returns r \<Rightarrow>
             (case raise_for_status r of
                Inl e \<Rightarrow> (Inl e, posted req w)
              | Inr _ \<Rightarrow>
                  (case parse_response r of
                     Inl e \<Rightarrow> (Inl e, posted req w)
                   | Inr d \<Rightarrow> (Inr d, posted req w))))
      else (Inr JNull, w))"
  by pat_completeness auto
termination
  by (relation "measure (\<lambda>(req, retries, w). nat retries)") auto

text \<open>
  \<open>Cloud._api_request\<close>: encode, draw the nonce, sign, build headers and URL; then take
  the lock, post, and release the lock (also when the post raises).
\<close>

definition api_request :: "security \<Rightarrow> cloud \<Rightarrow> string \<Rightarrow> json \<Rightarrow> world \<Rightarrow> (exn + json) \<times> world" where
  "api_request sec c endpoint body w =
     (let contents = body;
          (random, w1) = token_hex 16 w;
          sign = new_sign sec contents random;
          w2 = emit (EvSign contents random) w1;
          hdrs = [(''Content-Type'', JStr ''application/json''),
                  (''secretVersion'', JStr ''1''),
                  (''sign'', JStr sign),
                  (''random'', JStr random),
                  (''accessToken'', access_token c)];
          u = base_url c @ ''/mas/v5/app/proxy?alias='' @ endpoint;
          w3 = emit EvAcquire w2;
          (res, w4) = post_request \<lparr>url = u, headers = hdrs, content = contents\<rparr> RETRIES w3
      in (res, emit EvRelease w4))"

text \<open>\<open>Cloud._build_request_body\<close>\<close>

definition build_request_body :: "(string \<times> json) list \<Rightarrow> world \<Rightarrow> (string \<times> json) list \<times> world" where
  "build_request_body data w =
     (let (stamp, w1) = timestamp w;
          (req_id, w2) = token_hex 16 w1;
          body = [(''appId'', JStr APP_ID),
                  (''format'', JInt FORMAT),
                  (''clientType'', JInt CLIENT_TYPE),
                  (''language'', JStr LANGUAGE),
                  (''src'', JStr SRC),
                  (''stamp'', JStr stamp),
                  (''deviceId'', JStr DEVICE_ID),
                  (''reqId'', JStr req_id)]
      in (dict_update body data, w2))"

text \<open>\<open>Cloud._get_login_id\<close>\<close>

definition get_login_id :: "security \<Rightarrow> cloud \<Rightarrow> world \<Rightarrow> (exn + json) \<times> world" where
  "get_login_id sec c w =
     (let (body, w1) = build_request_body [(''loginAccount'', JStr (account c))] w;
          (res, w2) = api_request sec c ''/v1/user/login/id/get'' (JObj body) w1
      in case res of
           Inl e \<Rightarrow> (Inl e, w2)
         | Inr response \<Rightarrow>
             if response = JNull then (Inl AssertionError, w2)
             else (py_getitem response ''loginId'', w2))"

text \<open>The body \<open>Cloud.login\<close> builds; its dict literal draws the push token, then the
  request id, then reads the clock.\<close>

definition login_body :: "security \<Rightarrow> cloud \<Rightarrow> world \<Rightarrow> json \<times> world" where
  "login_body sec c w =
     (let iampwd = encrypt_iam_password sec (login_id c) (password c);
          pwd = encryptPassword sec (login_id c) (password c);
          (push_token, w1) = token_urlsafe 120 w;
          (req_id, w2) = token_hex 16 w1;
          (stamp, w3) = timestamp w2
      in (JObj [(''data'', JObj [(''platform'', JInt FORMAT),
                                 (''deviceId'', JStr DEVICE_ID)]),
                (''iotData'', JObj [(''appId'', JStr APP_ID),
                                    (''clientType'', JInt CLIENT_TYPE),
                                    (''iampwd'', JStr iampwd),
                                    (''loginAccount'', JStr (account c)),
                                    (''password'', JStr pwd),
                                    (''pushToken'', JStr push_token),
                                    (''reqId'', JStr req_id),
                                    (''src'', JStr SRC),
                                    (''stamp'', JStr stamp)])], w3))"

text \<open>The second half of \<open>Cloud.login\<close>: the login exchange, once a login id is held.\<close>

definition login_exchange :: "security \<Rightarrow> cloud \<Rightarrow> world \<Rightarrow> (exn + unit) \<times> cloud \<times> world" where
  "login_exchange sec c w =
     (let (body, w1) = login_body sec c w;
          (res, w2) = api_request sec c ''/mj/user/login'' body w1
      in case res of
           Inl e \<Rightarrow> (Inl e, c, w2)
         | Inr response \<Rightarrow>
             if response = JNull then (Inl AssertionError, c, w2)
             else
               (let c1 = c\<lparr>session := response\<rparr>
                in case py_getitem response ''mdata'' of
                     Inl e \<Rightarrow> (Inl e, c1, w2)
                   | Inr mdata \<Rightarrow>
                       (case py_getitem mdata ''accessToken'' of
                          Inl e \<Rightarrow> (Inl e, c1, w2)
                        | Inr tok \<Rightarrow> (Inr (), c1\<lparr>access_token := tok\<rparr>, w2))))"

text \<open>\<open>Cloud.login\<close>\<close>

definition login :: "security \<Rightarrow> cloud \<Rightarrow> bool \<Rightarrow> world \<Rightarrow> (exn + unit) \<times> cloud \<times> world" where
  "login sec c force w =
     (if py_truthy (session c) \<and> \<not> force then (Inr (), c, w)
      else if login_id c = JNull then
        (case get_login_id sec c w of
           (Inl e, w1) \<Rightarrow> (Inl e, c, w1)
         | (Inr lid, w1) \<Rightarrow> login_exchange sec (c\<lparr>login_id := lid\<rparr>) w1)
      else login_exchange sec c w)"

text \<open>The scan of the token list in \<open>Cloud.get_token\<close>; \<open>(None, None)\<close> when nothing matches.\<close>

fun scan_tokens :: "json list \<Rightarrow> string \<Rightarrow> exn + json \<times> json" where
  "scan_tokens [] udpid = Inr (JNull, JNull)"
| "scan_tokens (token # rest) udpid =
     (case py_getitem token ''udpId'' of
        Inl e \<Rightarrow> Inl e
      | Inr u \<Rightarrow>
          if u = JStr udpid then
            (case py_getitem token ''token'' of
               Inl e \<Rightarrow> Inl e
             | Inr t \<Rightarrow>
                 (case py_getitem token ''key'' of
                    Inl e \<Rightarrow> Inl e
                  | Inr k \<Rightarrow> Inr (t, k)))
          else scan_tokens rest udpid)"

text \<open>What \<open>Cloud.get_token\<close> does with the response of its request.\<close>

definition find_token :: "json \<Rightarrow> string \<Rightarrow> exn + json \<times> json" where
  "find_token response udpid =
     (if response = JNull then Inl AssertionError
      else case py_getitem response ''tokenlist'' of
             Inl e \<Rightarrow> Inl e
           | Inr tokenlist \<Rightarrow>
               (case py_iter tokenlist of
                  Inl e \<Rightarrow> Inl e
                | Inr tokens \<Rightarrow> scan_tokens tokens udpid))"

text \<open>\<open>Cloud.get_token\<close>\<close>

definition get_token :: "security \<Rightarrow> cloud \<Rightarrow> string \<Rightarrow> world \<Rightarrow> (exn + json \<times> json) \<times> world" where
  "get_token sec c udpid w =
     (let (body, w1) = build_request_body [(''udpid'', JStr udpid)] w;
          (res, w2) = api_request sec c ''/v1/iot/secure/getToken'' (JObj body) w1
      in case res of
           Inl e \<Rightarrow> (Inl e, w2)
         | Inr response \<Rightarrow> (find_token response udpid, w2))"

section \<open>Auxiliary notions for stating the properties\<close>

text \<open>
  The number of POSTs the retry loop makes when started with \<open>n\<close> retries: it stops at the
  first outcome that is not a timeout.
\<close>

fun attempts :: "(nat \<Rightarrow> post_outcome) \<Rightarrow> nat \<Rightarrow> nat" where
  "attempts f 0 = 0"
| "attempts f (Suc n) = (if f 0 = Raises TimeoutException then Suc (attempts (shift f) n) else 1)"

text \<open>What one attempt of the loop yields when its POST did not time out.\<close>

definition attempt_result :: "post_outcome \<Rightarrow> exn + json" where
  "attempt_result out =
     (case out of
        Raises e \<Rightarrow> Inl e
      | Returns r \<Rightarrow>
          (case raise_for_status r of
             Inl e \<Rightarrow> Inl e
           | Inr _ \<Rightarrow> parse_response r))"

text \<open>The POST requests in a trace, in order.\<close>

fun posts_of :: "event list \<Rightarrow> request list" where
  "posts_of [] = []"
| "posts_of (EvPost r # evs) = r # posts_of evs"
| "posts_of (_ # evs) = posts_of evs"

text \<open>Concrete inputs for the examples.\<close>

definition example_request :: request where
  "example_request = \<lparr>url = ''https://mp-prod.appsmb.com/mas/v5/app/proxy?alias=/x'', headers = [], content = JObj []\<rparr>"

definition example_world :: "(nat \<Rightarrow> post_outcome) \<Rightarrow> world" where
  "example_world f =
     \<lparr>net = f, hexes = (\<lambda>n. ''00112233445566778899aabbccddeeff''),
      urlsafes = (\<lambda>n. ''push''),
      clock = (\<lambda>n. \<lparr>year = 2024, month = 3, day = 9, hour = 7, minute = 5, second = 0\<rparr>),
      trace = []\<rparr>"

definition envelope :: "int \<Rightarrow> string \<Rightarrow> json \<Rightarrow> post_outcome" where
  "envelope code msg data =
     Returns \<lparr>status_error = False,
              loaded = Some (JObj [(''code'', JInt code), (''msg'', JStr msg), (''data'', data)])\<rparr>"

text \<open>The request \<open>_api_request\<close> posts for a body, once the nonce \<open>random\<close> is drawn.\<close>

definition signed_request :: "security \<Rightarrow> cloud \<Rightarrow> string \<Rightarrow> json \<Rightarrow> string \<Rightarrow> request" where
  "signed_request sec c endpoint body random =
     \<lparr>url = base_url c @ ''/mas/v5/app/proxy?alias='' @ endpoint,
      headers = [(''Content-Type'', JStr ''application/json''),
                 (''secretVersion'', JStr ''1''),
                 (''sign'', JStr (new_sign sec body random)),
                 (''random'', JStr random),
                 (''accessToken'', access_token c)],
      content = body\<rparr>"

text \<open>What the next API request made in world \<open>w\<close> yields: the outcome of its last attempt.\<close>

definition next_request_result :: "world \<Rightarrow> exn + json" where
  "next_request_result w = attempt_result (net w (attempts (net w) 3 - 1))"

text \<open>The events of a run from world \<open>w\<close> to world \<open>w'\<close>.\<close>

definition new_events :: "world \<Rightarrow> world \<Rightarrow> event list" where
  "new_events w w' = drop (length (trace w)) (trace w')"

text \<open>
  The events of a trace that happen while the lock is not held; the flag says whether
  the lock is held at the start.
\<close>

fun unlocked_events :: "bool \<Rightarrow> event list \<Rightarrow> event list" where
  "unlocked_events held [] = []"
| "unlocked_events held (EvAcquire # evs) = unlocked_events True evs"
| "unlocked_events held (EvRelease # evs) = unlocked_events False evs"
| "unlocked_events held (ev # evs) = (if held then [] else [ev]) @ unlocked_events held evs"

text \<open>The events of a trace that happen while the lock is held.\<close>

fun locked_events :: "bool \<Rightarrow> event list \<Rightarrow> event list" where
  "locked_events held [] = []"
| "locked_events held (EvAcquire # evs) = locked_events True evs"
| "locked_events held (EvRelease # evs) = locked_events False evs"
| "locked_events held (ev # evs) = (if held then [ev] else []) @ locked_events held evs"

fun is_signing_event :: "event \<Rightarrow> bool" where
  "is_signing_event (EvTokenHex n r) = True"
| "is_signing_event (EvSign b r) = True"
| "is_signing_event _ = False"

text \<open>
  Where a call can be suspended. The scheduler is cooperative: a coroutine runs without
  interruption up to its next \<open>await\<close> or \<open>async with\<close>. In \<open>_api_request\<close> these are the
  entry of \<open>async with self._api_lock\<close>, each \<open>await client.post\<close>, and the exits of the two
  \<open>async with\<close> blocks before the lock is released; \<open>token_hex\<close> and \<open>new_sign\<close> are plain
  calls.
\<close>

fun suspends :: "event \<Rightarrow> bool" where
  "suspends EvAcquire = True"
| "suspends (EvPost r) = True"
| "suspends EvRelease = True"
| "suspends (EvTokenHex n r) = False"
| "suspends (EvSign b r) = False"

text \<open>
  The events of one call, cut into the pieces that run without interruption: a new piece
  starts at every event before which the call can be suspended.
\<close>

function atomic_blocks :: "event list \<Rightarrow> event list list" where
  "atomic_blocks [] = []"
| "atomic_blocks (e # es) =
     (e # takeWhile (\<lambda>x. \<not> suspends x) es) # atomic_blocks (dropWhile (\<lambda>x. \<not> suspends x) es)"
  by pat_completeness auto
termination
  by (relation "measure length") (auto simp: less_Suc_eq_le length_dropWhile_le)

text \<open>
  Two calls issued concurrently: the scheduler picks, piece by piece, which call runs
  next (\<open>pick 0\<close> is the next choice; \<open>True\<close> runs the first call).
\<close>

fun interleave :: "(nat \<Rightarrow> bool) \<Rightarrow> 'a list \<Rightarrow> 'a list \<Rightarrow> 'a list" where
  "interleave pick [] ys = ys"
| "interleave pick xs [] = xs"
| "interleave pick (x # xs) (y # ys) =
     (if pick 0 then x # interleave (shift pick) xs (y # ys)
      else y # interleave (shift pick) (x # xs) ys)"

text \<open>The outcomes of the POSTs that are left once one API request has been made.\<close>

definition skip_request :: "(nat \<Rightarrow> post_outcome) \<Rightarrow> (nat \<Rightarrow> post_outcome)" where
  "skip_request f = (shift ^^ attempts f 3) f"

text \<open>The body fields the interface requires on a call.\<close>

definition required_fields :: "string list" where
  "required_fields =
     [''appId'', ''format'', ''clientType'', ''language'', ''src'', ''stamp'', ''deviceId'', ''reqId'']"

definition has_required_fields :: "json \<Rightarrow> bool" where
  "has_required_fields body =
     (case body of
        JObj kvs \<Rightarrow> list_all (\<lambda>k. map_of kvs k \<noteq> None) required_fields
      | _ \<Rightarrow> False)"

text \<open>The eight fields as \<open>_build_request_body\<close> fills them in world \<open>w\<close>.\<close>

definition required_body :: "world \<Rightarrow> (string \<times> json) list" where
  "required_body w =
     [(''appId'', JStr ''1010''),
      (''format'', JInt 2),
      (''clientType'', JInt 1),
      (''language'', JStr ''en_US''),
      (''src'', JStr ''1010''),
      (''stamp'', JStr (strftime_YmdHMS (clock w 0))),
      (''deviceId'', JStr ''c1acad8939ac0d7d''),
      (''reqId'', JStr (hexes w 0))]"

text \<open>An entry of the token list that names a device other than \<open>udpid\<close>.\<close>

definition other_device :: "string \<Rightarrow> json \<Rightarrow> bool" where
  "other_device udpid token =
     (case token of
        JObj kvs \<Rightarrow> (case map_of kvs ''udpId'' of None \<Rightarrow> False | Some u \<Rightarrow> u \<noteq> JStr udpid)
      | _ \<Rightarrow> False)"

definition example_security :: security where
  "example_security =
     \<lparr>new_sign = (\<lambda>contents random. ''sig-'' @ random),
      encrypt_iam_password = (\<lambda>lid pwd. ''iam-'' @ pwd),
      encryptPassword = (\<lambda>lid pwd. ''enc-'' @ pwd)\<rparr>"

definition example_cloud :: cloud where
  "example_cloud =
     \<lparr>account = ''user@example.com'', password = ''secret'', login_id = JStr ''lid'',
      session = JObj [(''mdata'', JObj [(''accessToken'', JStr ''tok'')])],
      access_token = JStr ''tok'', base_url = ''https://mp-prod.appsmb.com''\<rparr>"

section \<open>The heat pump device\<close>

datatype RunMode = AUTO | COOL | HEAT | DHW

datatype TemperatureType = AIR | WATER

text \<open>
  The value an \<open>IntEnum\<close> lookup compares with the members' values: an int, a bool
  (which equals 0 or 1) or a float with an integral value; nothing else equals an int.
\<close>

fun as_int :: "json \<Rightarrow> int option" where
  "as_int (JInt n) = Some n"
| "as_int (JBool b) = Some (if b then 1 else 0)"
| "as_int (JFloat (FFinite m e)) =
     (if 0 \<le> e then Some (m * 2 ^ nat e)
      else if m mod 2 ^ nat (- e) = 0 then Some (m div 2 ^ nat (- e)) else None)"
| "as_int _ = None"

text \<open>\<open>HeatPump.RunMode(value)\<close>: the member with that value, or \<open>ValueError\<close>.\<close>

definition RunMode_of :: "json \<Rightarrow> exn + RunMode" where
  "RunMode_of v =
     (case as_int v of
        None \<Rightarrow> Inl ValueError
      | Some n \<Rightarrow>
          if n = 1 then Inr AUTO
          else if n = 2 then Inr COOL
          else if n = 3 then Inr HEAT
          else if n = 5 then Inr DHW
          else Inl ValueError)"

text \<open>\<open>HeatPump.TemperatureType(value)\<close>\<close>

definition TemperatureType_of :: "json \<Rightarrow> exn + TemperatureType" where
  "TemperatureType_of v =
     (case as_int v of
        None \<Rightarrow> Inl ValueError
      | Some n \<Rightarrow>
          if n = 0 then Inr AIR
          else if n = 1 then Inr WATER
          else Inl ValueError)"

text \<open>\<open>HeatPump.Zone\<close>; an enum-valued field is \<open>None\<close> until it is set.\<close>

record Zone =
  power_state :: json
  curve_state :: json
  temperature_type :: "TemperatureType option"
  terminal_type :: json
  target_temperature :: json
  min_heat_temperature :: json
  max_heat_temperature :: json
  min_cool_temperature :: json
  max_cool_temperature :: json

definition Zone_init :: Zone where
  "Zone_init =
     \<lparr>power_state = JBool False, curve_state = JBool False, temperature_type = None,
      terminal_type = JNull, target_temperature = JInt 25,
      min_heat_temperature = JInt 25, max_heat_temperature = JInt 55,
      min_cool_temperature = JInt 5, max_cool_temperature = JInt 25\<rparr>"

text \<open>
  Modelled from the spec: the enumeration \<open>msmart.const.DeviceType\<close>, whose module is
  missing from the sources. The spec names two kinds of appliance, air conditioners and
  heat pumps.
\<close>

datatype DeviceType = AIR_CONDITIONER | HEAT_PUMP

text \<open>
  Modelled from the spec: the base class \<open>msmart.base_device.Device\<close>, whose module is
  missing from the sources. A device session is identified by IP, port and device identifier, and owns the flags
  \<open>online\<close> and \<open>supported\<close>, both false before the first send. Keyword arguments the base
  class receives beyond these are kept as they were passed.
\<close>

record Device =
  ip :: string
  port :: int
  device_id :: int
  device_type :: DeviceType
  extra :: "(string \<times> json) list"
  online :: bool
  supported :: bool

definition Device_init :: "string \<Rightarrow> int \<Rightarrow> int \<Rightarrow> DeviceType \<Rightarrow> (string \<times> json) list \<Rightarrow> Device" where
  "Device_init ip0 port0 id0 type0 kwargs =
     \<lparr>ip = ip0, port = port0, device_id = id0, device_type = type0, extra = kwargs,
      online = False, supported = False\<rparr>"

text \<open>
  The call \<open>super().__init__(ip=..., port=..., device_id=..., device_type=..., **kwargs)\<close>:
  Python raises \<open>TypeError\<close> when \<open>kwargs\<close> repeats a keyword given explicitly.
\<close>

definition call_Device_init ::
    "string \<Rightarrow> int \<Rightarrow> int \<Rightarrow> DeviceType \<Rightarrow> (string \<times> json) list \<Rightarrow> exn + Device" where
  "call_Device_init ip0 port0 id0 type0 kwargs =
     (if list_ex (\<lambda>k. map_of kwargs k \<noteq> None) [''ip'', ''port'', ''device_id'', ''device_type'']
      then Inl TypeError
      else Inr (Device_init ip0 port0 id0 type0 kwargs))"

text \<open>\<open>d.pop(key, None)\<close>, for the dict that is left.\<close>

definition dict_pop :: "(string \<times> json) list \<Rightarrow> string \<Rightarrow> (string \<times> json) list" where
  "dict_pop d k = filter (\<lambda>kv. fst kv \<noteq> k) d"

text \<open>
  The fields of a \<open>HeatPump\<close>. The last four do not exist after \<open>__init__\<close> (\<open>None\<close> here);
  \<open>_update_state\<close> creates them.
\<close>

record HeatPump = Device +
  run_mode :: "RunMode option"
  heat_enable :: json
  cool_enable :: json
  zone2_enable :: json
  zone_1 :: Zone
  zone_2 :: Zone
  dhw_enable :: json
  dhw_power_state :: json
  dhw_target_temperature :: json
  dhw_min_temperature :: json
  dhw_max_temperature :: json
  room_thermostat_enable :: json
  room_termostate_power_state :: json
  room_target_temperature :: json
  room_min_temperature :: json
  room_max_temperature :: json
  tbh_state :: json
  fastdhw_state :: json
  tank_temperature :: json
  room_thermostat_power_state :: "json option"
  room_thermostat_target_temperature :: "json option"
  room_thermostat_min_temperature :: "json option"
  room_thermostat_max_temperature :: "json option"

text \<open>The assignments of \<open>HeatPump.__init__\<close> that follow the base class's constructor.\<close>

definition HeatPump_fields :: "Device \<Rightarrow> HeatPump" where
  "HeatPump_fields d =
     Device.extend d
       \<lparr>run_mode = None, heat_enable = JBool False, cool_enable = JBool False,
        zone2_enable = JBool False, zone_1 = Zone_init, zone_2 = Zone_init,
        dhw_enable = JBool False, dhw_power_state = JBool False,
        dhw_target_temperature = JInt 25, dhw_min_temperature = JInt 20,
        dhw_max_temperature = JInt 60,
        room_thermostat_enable = JBool False,
        room_termostate_power_state = JBool False,
        room_target_temperature = JInt 25, room_min_temperature = JInt 17,
        room_max_temperature = JInt 30,
        tbh_state = JBool False, fastdhw_state = JBool False,
        tank_temperature = JNull,
        room_thermostat_power_state = None,
        room_thermostat_target_temperature = None,
        room_thermostat_min_temperature = None,
        room_thermostat_max_temperature = None\<rparr>"

text \<open>\<open>HeatPump.__init__\<close>\<close>

definition HeatPump_init :: "string \<Rightarrow> int \<Rightarrow> int \<Rightarrow> (string \<times> json) list \<Rightarrow> exn + HeatPump" where
  "HeatPump_init ip0 id0 port0 kwargs =
     (let kwargs = dict_pop kwargs ''device_type''
      in case call_Device_init ip0 port0 id0 HEAT_PUMP kwargs of
           Inl e \<Rightarrow> Inl e
         | Inr d \<Rightarrow> Inr (HeatPump_fields d))"

text \<open>
  A decoded response: its \<open>type\<close> and its attributes by name, as \<open>getattr\<close> finds them.
  The classes \<open>Response\<close> and \<open>QueryBasicResponse\<close> are imported from \<open>command.py\<close>, which
  does not define them; the model keeps only what \<open>device.py\<close> uses of a response.
\<close>

record Response =
  type' :: int
  attrs :: "(string \<times> json) list"

definition QUERY_BASIC :: int where "QUERY_BASIC = 1"

definition getattr :: "Response \<Rightarrow> string \<Rightarrow> exn + json" where
  "getattr res name =
     (case map_of (attrs res) name of None \<Rightarrow> Inl (AttributeError name) | Some v \<Rightarrow> Inr v)"

text \<open>
  A function body as a list of statements, run in order: the first statement that raises
  ends the run, and the state keeps what the statements before it did.
\<close>

fun run_steps :: "('s \<Rightarrow> exn + 's) list \<Rightarrow> 's \<Rightarrow> (exn + unit) \<times> 's" where
  "run_steps [] s = (Inr (), s)"
| "run_steps (st # sts) s =
     (case st s of
        Inl e \<Rightarrow> (Inl e, s)
      | Inr s' \<Rightarrow> run_steps sts s')"

text \<open>The statement \<open>target = value\<close>, where evaluating the value may raise.\<close>

definition assign :: "('a \<Rightarrow> 's \<Rightarrow> 's) \<Rightarrow> exn + 'a \<Rightarrow> 's \<Rightarrow> exn + 's" where
  "assign store rhs s = (case rhs of Inl e \<Rightarrow> Inl e | Inr v \<Rightarrow> Inr (store v s))"

text \<open>\<open>Enum(getattr(...))\<close>: the conversion runs on the attribute once it is found.\<close>

definition convert :: "(json \<Rightarrow> exn + 'a) \<Rightarrow> exn + json \<Rightarrow> exn + 'a" where
  "convert f rhs = (case rhs of Inl e \<Rightarrow> Inl e | Inr v \<Rightarrow> f v)"

text \<open>The body of the loop over the zones in \<open>_update_state\<close>, for zone number \<open>i\<close>.\<close>

definition zone_steps :: "nat \<Rightarrow> Response \<Rightarrow> (Zone \<Rightarrow> exn + Zone) list" where
  "zone_steps i res =
     [assign (\<lambda>v z. z\<lparr>power_state := v\<rparr>) (getattr res (''zone'' @ dec i @ ''_power_state'')),
      assign (\<lambda>v z. z\<lparr>curve_state := v\<rparr>) (getattr res (''zone'' @ dec i @ ''_curve_state'')),
      assign (\<lambda>v z. z\<lparr>temperature_type := Some v\<rparr>)
        (convert TemperatureType_of (getattr res (''zone'' @ dec i @ ''_temp_type)''))),
      assign (\<lambda>v z. z\<lparr>terminal_type := v\<rparr>) (getattr res (''zone'' @ dec i @ ''_terminal_type'')),
      assign (\<lambda>v z. z\<lparr>target_temperature := v\<rparr>)
        (getattr res (''zone'' @ dec i @ ''_target_temperature'')),
      assign (\<lambda>v z. z\<lparr>min_heat_temperature := v\<rparr>)
        (getattr res (''zone'' @ dec i @ ''_heat_min_temperature'')),
      assign (\<lambda>v z. z\<lparr>max_heat_temperature := v\<rparr>)
        (getattr res (''zone'' @ dec i @ ''_heat_max_temperature'')),
      assign (\<lambda>v z. z\<lparr>min_cool_temperature := v\<rparr>)
        (getattr res (''zone'' @ dec i @ ''_cool_min_temperature'')),
      assign (\<lambda>v z. z\<lparr>max_cool_temperature := v\<rparr>)
        (getattr res (''zone'' @ dec i @ ''_cool_max_temperature''))]"

text \<open>A statement on a zone as a statement on the device that owns the zone.\<close>

definition on_zone_1 :: "(Zone \<Rightarrow> exn + Zone) \<Rightarrow> HeatPump \<Rightarrow> exn + HeatPump" where
  "on_zone_1 st s = (case st (zone_1 s) of Inl e \<Rightarrow> Inl e | Inr z \<Rightarrow> Inr (s\<lparr>zone_1 := z\<rparr>))"

definition on_zone_2 :: "(Zone \<Rightarrow> exn + Zone) \<Rightarrow> HeatPump \<Rightarrow> exn + HeatPump" where
  "on_zone_2 st s = (case st (zone_2 s) of Inl e \<Rightarrow> Inl e | Inr z \<Rightarrow> Inr (s\<lparr>zone_2 := z\<rparr>))"

text \<open>\<open>HeatPump._update_state\<close>, statement by statement.\<close>

definition update_state :: "Response \<Rightarrow> HeatPump \<Rightarrow> (exn + unit) \<times> HeatPump" where
  "update_state res =
     run_steps
       ([assign (\<lambda>v s. s\<lparr>run_mode := Some v\<rparr>) (convert RunMode_of (getattr res ''run_mode'')),
         assign (\<lambda>v s. s\<lparr>heat_enable := v\<rparr>) (getattr res ''heat_enable''),
         assign (\<lambda>v s. s\<lparr>cool_enable := v\<rparr>) (getattr res ''cool_enable''),
         assign (\<lambda>v s. s\<lparr>zone2_enable := v\<rparr>) (getattr res ''zone2_enable'')]
        @ map on_zone_1 (zone_steps 1 res)
        @ map on_zone_2 (zone_steps 2 res)
        @ [assign (\<lambda>v s. s\<lparr>dhw_enable := v\<rparr>) (getattr res ''dhw_enable''),
           assign (\<lambda>v s. s\<lparr>dhw_power_state := v\<rparr>) (getattr res ''dhw_power_state''),
           assign (\<lambda>v s. s\<lparr>dhw_target_temperature := v\<rparr>) (getattr res ''dhw_target_temperature''),
           assign (\<lambda>v s. s\<lparr>dhw_min_temperature := v\<rparr>) (getattr res ''dhw_min_temperature''),
           assign (\<lambda>v s. s\<lparr>dhw_max_temperature := v\<rparr>) (getattr res ''dhw_max_temperature''),
           assign (\<lambda>v s. s\<lparr>room_thermostat_enable := v\<rparr>) (getattr res ''room_thermostat_enable''),
           assign (\<lambda>v s. s\<lparr>room_thermostat_power_state := Some v\<rparr>)
             (getattr res ''room_thermostat_power_state''),
           assign (\<lambda>v s. s\<lparr>room_thermostat_target_temperature := Some v\<rparr>)
             (getattr res ''room_target_temperature''),
           assign (\<lambda>v s. s\<lparr>room_thermostat_min_temperature := Some v\<rparr>)
             (getattr res ''room_min_temperature''),
           assign (\<lambda>v s. s\<lparr>room_thermostat_max_temperature := Some v\<rparr>)
             (getattr res ''room_max_temperature''),
           assign (\<lambda>v s. s\<lparr>tbh_state := v\<rparr>) (getattr res ''tbh_state''),
           assign (\<lambda>v s. s\<lparr>fastdhw_state := v\<rparr>) (getattr res ''fastdhw_state''),
           assign (\<lambda>v s. s\<lparr>tank_temperature := v\<rparr>) (getattr res ''tank_temperature'')])"

text \<open>\<open>HeatPump._process_state_response\<close>; the other branch only writes a log line.\<close>

definition process_state_response :: "Response \<Rightarrow> HeatPump \<Rightarrow> (exn + unit) \<times> HeatPump" where
  "process_state_response response s =
     (if type' response = QUERY_BASIC then update_state response s else (Inr (), s))"

text \<open>
  The loop of \<open>_send_command_get_responses\<close> over the replies. \<open>Response.construct\<close> is a
  parameter; the loop skips a reply for which it raises \<open>InvalidFrameException\<close>, and any
  other exception leaves the loop.
\<close>

fun construct_all ::
    "('d \<Rightarrow> exn + Response) \<Rightarrow> 'd list \<Rightarrow> bool \<Rightarrow> Response list \<Rightarrow> (exn + Response list) \<times> bool" where
  "construct_all construct [] flag valid_responses = (Inr valid_responses, flag)"
| "construct_all construct (data # rest) flag valid_responses =
     (case construct data of
        Inl e \<Rightarrow>
          if e = InvalidFrameException then construct_all construct rest flag valid_responses
          else (Inl e, flag)
      | Inr response \<Rightarrow> construct_all construct rest True (valid_responses @ [response]))"

text \<open>
  \<open>HeatPump._send_command_get_responses\<close>. The result of the base class's
  \<open>_send_command\<close> is the parameter \<open>responses\<close>: \<open>None\<close>, or a list of replies.
\<close>

definition send_command_get_responses ::
    "('d \<Rightarrow> exn + Response) \<Rightarrow> 'd list option \<Rightarrow> HeatPump \<Rightarrow> (exn + Response list) \<times> HeatPump" where
  "send_command_get_responses construct responses s =
     (case responses of
        None \<Rightarrow> (Inr [], s\<lparr>online := False\<rparr>)
      | Some replies \<Rightarrow>
          (let s1 = s\<lparr>online := True\<rparr>;
               (res, flag) = construct_all construct replies (supported s1) []
           in (res, s1\<lparr>supported := flag\<rparr>)))"

text \<open>The loop of \<open>refresh\<close> over the valid responses.\<close>

fun process_all :: "Response list \<Rightarrow> HeatPump \<Rightarrow> (exn + unit) \<times> HeatPump" where
  "process_all [] s = (Inr (), s)"
| "process_all (response # rest) s =
     (case process_state_response response s of
        (Inl e, s') \<Rightarrow> (Inl e, s')
      | (Inr _, s') \<Rightarrow> process_all rest s')"

text \<open>\<open>HeatPump.refresh\<close>\<close>

definition refresh ::
    "('d \<Rightarrow> exn + Response) \<Rightarrow> 'd list option \<Rightarrow> HeatPump \<Rightarrow> (exn + unit) \<times> HeatPump" where
  "refresh construct responses s =
     (case send_command_get_responses construct responses s of
        (Inl e, s') \<Rightarrow> (Inl e, s')
      | (Inr valid_responses, s') \<Rightarrow> process_all valid_responses s')"

section \<open>Auxiliary notions for the device\<close>







definition example_heat_pump :: HeatPump where
  "example_heat_pump = HeatPump_fields (Device_init ''10.0.0.5'' 6444 1234 HEAT_PUMP [])"

text \<open>A basic-state response with every attribute \<open>_update_state\<close> is meant to read.\<close>

definition example_basic_response :: Response where
  "example_basic_response =
     \<lparr>type' = 1,
      attrs =
        [(''run_mode'', JInt 2), (''heat_enable'', JBool True), (''cool_enable'', JBool True),
         (''zone2_enable'', JBool False),
         (''zone1_power_state'', JBool True), (''zone1_curve_state'', JBool False),
         (''zone1_temp_type'', JInt 1), (''zone1_terminal_type'', JInt 0),
         (''zone1_target_temperature'', JInt 21),
         (''zone1_heat_min_temperature'', JInt 25), (''zone1_heat_max_temperature'', JInt 55),
         (''zone1_cool_min_temperature'', JInt 5), (''zone1_cool_max_temperature'', JInt 25),
         (''zone2_power_state'', JBool False), (''zone2_curve_state'', JBool False),
         (''zone2_temp_type'', JInt 0), (''zone2_terminal_type'', JInt 0),
         (''zone2_target_temperature'', JInt 22),
         (''zone2_heat_min_temperature'', JInt 25), (''zone2_heat_max_temperature'', JInt 55),
         (''zone2_cool_min_temperature'', JInt 5), (''zone2_cool_max_temperature'', JInt 25),
         (''dhw_enable'', JBool True), (''dhw_power_state'', JBool True),
         (''dhw_target_temperature'', JInt 48), (''dhw_min_temperature'', JInt 20),
         (''dhw_max_temperature'', JInt 60),
         (''room_thermostat_enable'', JBool False), (''room_thermostat_power_state'', JBool False),
         (''room_target_temperature'', JInt 25), (''room_min_temperature'', JInt 17),
         (''room_max_temperature'', JInt 30),
         (''tbh_state'', JBool False), (''fastdhw_state'', JBool False),
         (''tank_temperature'', JInt 47)]\<rparr>"

section \<open>Base URL selection\<close>

text \<open>
  C7 (counterexample): with the environment variable set to \<open>1\<close>, a caller who passes
  \<open>use_china_server = False\<close> still gets the China server, so the caller's explicit
  choice does not win for every combination.
\<close>

theorem C7_caller_choice_counterexample:
  "base_url (Cloud_init (Some ''1'') ''a'' ''p'' False) \<noteq> BASE_URL"
  by (simp add: Cloud_init_def getenv_def BASE_URL_def BASE_URL_CHINA_def)

text \<open>
  C7 (amended): the base URL is fixed at construction; it is the China server exactly
  when the environment variable equals \<open>1\<close> or the caller passes \<open>use_china_server = True\<close>,
  and the international server otherwise. So the caller's \<open>True\<close> wins in every
  environment, and the caller's \<open>False\<close> is followed unless the environment says \<open>1\<close>.
\<close>

theorem C7_base_url_selection:
  "base_url (Cloud_init env_china acct pwd use_china) =
     (if env_china = Some ''1'' \<or> use_china then BASE_URL_CHINA else BASE_URL)"
  by (cases env_china) (simp_all add: Cloud_init_def getenv_def)

section \<open>The retry loop\<close>

declare post_request.simps [simp del]

lemma net_posted [simp]: "net (posted req w) = shift (net w)"
  by (simp add: posted_def emit_def)

lemma trace_posted [simp]: "trace (posted req w) = trace w @ [EvPost req]"
  by (simp add: posted_def emit_def)

lemma trace_posted_funpow: "trace ((posted req ^^ k) w) = trace w @ replicate k (EvPost req)"
  by (induction k arbitrary: w) (simp_all add: funpow_swap1 replicate_app_Cons_same)

lemma post_request_world:
  "snd (post_request req (int n) w) = (posted req ^^ attempts (net w) n) w"
proof (induction n arbitrary: w)
  case 0
  show ?case by (simp add: post_request.simps)
next
  case (Suc n)
  show ?case
  proof (cases "net w 0 = Raises TimeoutException")
    case True
    show ?thesis
    proof (cases n)
      case 0
      with True show ?thesis by (simp add: post_request.simps)
    next
      case (Suc m)
      with True Suc.IH [of "posted req w"] show ?thesis
        by (subst post_request.simps) (simp add: funpow_swap1)
    qed
  next
    case False
    then show ?thesis
      by (subst post_request.simps) (simp split: post_outcome.splits sum.splits)
  qed
qed

lemma post_request_result:
  "fst (post_request req (int n) w) =
     (if n = 0 then Inr JNull else attempt_result (net w (attempts (net w) n - 1)))"
proof (induction n arbitrary: w)
  case 0
  show ?case by (simp add: post_request.simps)
next
  case (Suc n)
  show ?case
  proof (cases "net w 0 = Raises TimeoutException")
    case True
    show ?thesis
    proof (cases n)
      case 0
      with True show ?thesis by (simp add: post_request.simps attempt_result_def)
    next
      case (Suc m)
      with True Suc.IH [of "posted req w"] show ?thesis
        by (subst post_request.simps) (simp add: shift_def)
    qed
  next
    case False
    then show ?thesis
      by (subst post_request.simps)
         (simp add: attempt_result_def split: post_outcome.splits sum.splits)
  qed
qed

lemma attempts_all_timeout:
  "(\<forall>i<n. f i = Raises TimeoutException) \<Longrightarrow> attempts f n = n"
  by (induction n arbitrary: f) (auto simp: shift_def)

lemma attempts_first_other:
  "k < n \<Longrightarrow> (\<forall>i<k. f i = Raises TimeoutException) \<Longrightarrow> f k \<noteq> Raises TimeoutException
     \<Longrightarrow> attempts f n = Suc k"
proof (induction n arbitrary: f k)
  case 0
  then show ?case by simp
next
  case (Suc n)
  show ?case
  proof (cases k)
    case 0
    with Suc.prems show ?thesis by simp
  next
    case (Suc j)
    with Suc.prems have "f 0 = Raises TimeoutException" by simp
    moreover from Suc Suc.prems have "attempts (shift f) n = Suc j"
      by (intro Suc.IH) (auto simp: shift_def)
    ultimately show ?thesis using Suc by simp
  qed
qed

lemma attempts_le: "attempts f n \<le> n"
  by (induction n arbitrary: f) auto

lemma attempts_Suc_pos: "0 < attempts f (Suc n)"
  by simp

lemma post_request_RETRIES:
  "post_request req RETRIES w =
     (attempt_result (net w (attempts (net w) 3 - 1)), (posted req ^^ attempts (net w) 3) w)"
proof -
  have "RETRIES = int 3" by (simp add: RETRIES_def)
  then show ?thesis
    using post_request_result [of req 3 w] post_request_world [of req 3 w]
    by (simp add: prod_eq_iff)
qed

text \<open>
  C2: with the default \<open>RETRIES = 3\<close>, a request whose every attempt times out is posted
  exactly three times and then raises the timeout; a request that succeeds after fewer
  than three timeouts returns the parsed payload; and a failure that is not a timeout
  (a transport error, a bad status, a parse or API error) ends the loop at the attempt
  where it happens, without a further POST.
\<close>

theorem C2_retry_bound:
  "((\<forall>i<3. net w i = Raises TimeoutException) \<longrightarrow>
      fst (post_request req RETRIES w) = Inl TimeoutException \<and>
      trace (snd (post_request req RETRIES w)) = trace w @ replicate 3 (EvPost req))
   \<and> (k < 3 \<and> (\<forall>i<k. net w i = Raises TimeoutException) \<and> net w k = Returns r \<and>
        \<not> status_error r \<and> parse_response r = Inr d \<longrightarrow>
      fst (post_request req RETRIES w) = Inr d \<and>
      trace (snd (post_request req RETRIES w)) = trace w @ replicate (Suc k) (EvPost req))
   \<and> (k < 3 \<and> (\<forall>i<k. net w i = Raises TimeoutException) \<and> net w k \<noteq> Raises TimeoutException \<and>
        attempt_result (net w k) = Inl e \<longrightarrow>
      fst (post_request req RETRIES w) = Inl e \<and>
      trace (snd (post_request req RETRIES w)) = trace w @ replicate (Suc k) (EvPost req))"
proof (intro conjI impI)
  assume a: "\<forall>i<3. net w i = Raises TimeoutException"
  then have n: "attempts (net w) 3 = 3" by (rule attempts_all_timeout)
  from a have "net w 2 = Raises TimeoutException" by simp
  with n show "fst (post_request req RETRIES w) = Inl TimeoutException"
    by (simp add: post_request_RETRIES attempt_result_def)
  from n show "trace (snd (post_request req RETRIES w)) = trace w @ replicate 3 (EvPost req)"
    by (simp add: post_request_RETRIES trace_posted_funpow del: funpow.simps)
next
  assume a: "k < 3 \<and> (\<forall>i<k. net w i = Raises TimeoutException) \<and> net w k = Returns r \<and>
        \<not> status_error r \<and> parse_response r = Inr d"
  then have n: "attempts (net w) 3 = Suc k" by (intro attempts_first_other) auto
  with a show "fst (post_request req RETRIES w) = Inr d"
    by (simp add: post_request_RETRIES attempt_result_def raise_for_status_def)
  from n show "trace (snd (post_request req RETRIES w)) = trace w @ replicate (Suc k) (EvPost req)"
    by (simp add: post_request_RETRIES trace_posted_funpow del: funpow.simps)
next
  assume a: "k < 3 \<and> (\<forall>i<k. net w i = Raises TimeoutException) \<and> net w k \<noteq> Raises TimeoutException \<and>
        attempt_result (net w k) = Inl e"
  then have n: "attempts (net w) 3 = Suc k" by (intro attempts_first_other) auto
  with a show "fst (post_request req RETRIES w) = Inl e"
    by (simp add: post_request_RETRIES trace_posted_funpow del: funpow.simps)
  from n show "trace (snd (post_request req RETRIES w)) = trace w @ replicate (Suc k) (EvPost req)"
    by (simp add: post_request_RETRIES trace_posted_funpow del: funpow.simps)
qed

theorem C2_retry_bound_witness:
  "fst (post_request example_request RETRIES (example_world (\<lambda>n. Raises TimeoutException)))
     = Inl TimeoutException
   \<and> trace (snd (post_request example_request RETRIES (example_world (\<lambda>n. Raises TimeoutException))))
     = [EvPost example_request, EvPost example_request, EvPost example_request]
   \<and> fst (post_request example_request RETRIES
        (example_world (\<lambda>n. if n < 2 then Raises TimeoutException else envelope 0 ''ok'' (JStr ''payload''))))
     = Inr (JStr ''payload'')
   \<and> trace (snd (post_request example_request RETRIES
        (example_world (\<lambda>n. if n < 2 then Raises TimeoutException else envelope 0 ''ok'' (JStr ''payload'')))))
     = [EvPost example_request, EvPost example_request, EvPost example_request]
   \<and> fst (post_request example_request RETRIES (example_world (\<lambda>n. Raises (TransportError ''refused''))))
     = Inl (TransportError ''refused'')
   \<and> trace (snd (post_request example_request RETRIES (example_world (\<lambda>n. Raises (TransportError ''refused'')))))
     = [EvPost example_request]"
  using
    C2_retry_bound [of "example_world (\<lambda>n. Raises TimeoutException)" example_request 0]
    C2_retry_bound [of "example_world (\<lambda>n. if n < 2 then Raises TimeoutException else envelope 0 ''ok'' (JStr ''payload''))"
      example_request 2
      "\<lparr>status_error = False, loaded = Some (JObj [(''code'', JInt 0), (''msg'', JStr ''ok''), (''data'', JStr ''payload'')])\<rparr>"
      "JStr ''payload''"]
    C2_retry_bound [of "example_world (\<lambda>n. Raises (TransportError ''refused''))" example_request 0 _ _
      "TransportError ''refused''"]
  by (simp add: example_world_def envelope_def parse_response_def attempt_result_def numeral_3_eq_3)

section \<open>Effects of the helpers on the world\<close>

lemma posted_funpow:
  "(posted req ^^ k) w =
     w\<lparr>net := (shift ^^ k) (net w), trace := trace w @ replicate k (EvPost req)\<rparr>"
  by (induction k) (simp_all add: posted_def emit_def replicate_append_same)

lemma api_request_eq:
  "api_request sec c endpoint body w =
     (next_request_result w,
      w\<lparr>hexes := shift (hexes w),
        net := (shift ^^ attempts (net w) 3) (net w),
        trace := trace w @
          [EvTokenHex 16 (hexes w 0), EvSign body (hexes w 0), EvAcquire] @
          replicate (attempts (net w) 3) (EvPost (signed_request sec c endpoint body (hexes w 0))) @
          [EvRelease]\<rparr>)"
  by (simp add: api_request_def token_hex_def emit_def post_request_RETRIES posted_funpow
      next_request_result_def signed_request_def Let_def)

lemma build_request_body_eq:
  "build_request_body data w =
     (dict_update (required_body w) data,
      w\<lparr>clock := shift (clock w), hexes := shift (hexes w),
        trace := trace w @ [EvTokenHex 16 (hexes w 0)]\<rparr>)"
  by (simp add: build_request_body_def timestamp_def token_hex_def emit_def required_body_def
      APP_ID_def FORMAT_def CLIENT_TYPE_def LANGUAGE_def SRC_def DEVICE_ID_def)

lemma login_body_world:
  "snd (login_body sec c w) =
     w\<lparr>urlsafes := shift (urlsafes w), hexes := shift (hexes w), clock := shift (clock w),
       trace := trace w @ [EvTokenHex 16 (hexes w 0)]\<rparr>"
  by (simp add: login_body_def token_urlsafe_def token_hex_def timestamp_def emit_def)

lemma posts_of_append: "posts_of (xs @ ys) = posts_of xs @ posts_of ys"
  by (induction xs rule: posts_of.induct) simp_all

lemma posts_of_replicate: "posts_of (replicate k (EvPost r)) = replicate k r"
  by (induction k) simp_all

lemma unlocked_held_posts: "unlocked_events True (replicate k (EvPost r) @ [EvRelease]) = []"
  by (induction k) simp_all

lemma locked_held_posts:
  "locked_events True (replicate k (EvPost r) @ [EvRelease]) = replicate k (EvPost r)"
  by (induction k) simp_all

lemma attempts_3_pos: "0 < attempts f 3"
  by (simp add: numeral_3_eq_3)

section \<open>Two concurrent calls\<close>

text \<open>
  The choice sequences of the scheduler give exactly the interleavings of the two calls'
  pieces: each result of \<open>interleave\<close> is a shuffle of the two lists, and each shuffle is the
  result of some choice sequence.
\<close>

lemma interleave_in_shuffles: "interleave pick xs ys \<in> shuffles xs ys"
  by (induction pick xs ys rule: interleave.induct) auto

lemma shuffles_interleave: "zs \<in> shuffles xs ys \<Longrightarrow> \<exists>pick. interleave pick xs ys = zs"
proof (induction xs ys arbitrary: zs rule: shuffles.induct)
  case (1 ys)
  then show ?case by simp
next
  case (2 xs)
  then show ?case by (cases xs) auto
next
  case (3 x xs y ys)
  from "3.prems" consider zs' where "zs = x # zs'" "zs' \<in> shuffles xs (y # ys)"
    | zs' where "zs = y # zs'" "zs' \<in> shuffles (x # xs) ys"
    by auto
  then show ?case
  proof cases
    case 1
    with "3.IH"(1) obtain p where p: "interleave p xs (y # ys) = zs'" by blast
    have "shift (\<lambda>n. case n of 0 \<Rightarrow> True | Suc m \<Rightarrow> p m) = p" by (simp add: shift_def)
    with p 1 have "interleave (\<lambda>n. case n of 0 \<Rightarrow> True | Suc m \<Rightarrow> p m) (x # xs) (y # ys) = zs"
      by simp
    then show ?thesis by blast
  next
    case 2
    with "3.IH"(2) obtain p where p: "interleave p (x # xs) ys = zs'" by blast
    have "shift (\<lambda>n. case n of 0 \<Rightarrow> False | Suc m \<Rightarrow> p m) = p" by (simp add: shift_def)
    with p 2 have "interleave (\<lambda>n. case n of 0 \<Rightarrow> False | Suc m \<Rightarrow> p m) (x # xs) (y # ys) = zs"
      by simp
    then show ?thesis by blast
  qed
qed

lemma filter_concat_none:
  "list_all (\<lambda>b. filter P b = []) xs \<Longrightarrow> filter P (concat xs) = []"
  by (induction xs) simp_all

lemma filter_concat_interleave_left:
  "list_all (\<lambda>b. filter P b = []) xs \<Longrightarrow>
   filter P (concat (interleave pick xs ys)) = filter P (concat ys)"
  by (induction pick xs ys rule: interleave.induct) (auto simp: filter_concat_none)

lemma filter_concat_interleave_right:
  "list_all (\<lambda>b. filter P b = []) ys \<Longrightarrow>
   filter P (concat (interleave pick xs ys)) = filter P (concat xs)"
  by (induction pick xs ys rule: interleave.induct) (auto simp: filter_concat_none)

lemma filter_concat_interleave_heads:
  assumes "list_all (\<lambda>b. filter P b = []) xs" and "list_all (\<lambda>b. filter P b = []) ys"
  shows "filter P (concat (interleave pick (a # xs) (b # ys))) =
     (if pick 0 then filter P a @ filter P b else filter P b @ filter P a)"
  using assms
  by (simp add: filter_concat_interleave_left filter_concat_interleave_right filter_concat_none)

lemma takeWhile_posts:
  "takeWhile (\<lambda>x. \<not> suspends x) (replicate k (EvPost r) @ [EvRelease]) = []"
  by (cases k) simp_all

lemma dropWhile_posts:
  "dropWhile (\<lambda>x. \<not> suspends x) (replicate k (EvPost r) @ [EvRelease]) =
     replicate k (EvPost r) @ [EvRelease]"
  by (cases k) simp_all

lemma atomic_blocks_posts:
  "atomic_blocks (replicate k (EvPost r) @ [EvRelease]) = replicate k [EvPost r] @ [[EvRelease]]"
  by (induction k) (simp_all add: takeWhile_posts dropWhile_posts)

lemma atomic_blocks_api_request:
  "atomic_blocks (new_events w (snd (api_request sec c endpoint body w))) =
     [EvTokenHex 16 (hexes w 0), EvSign body (hexes w 0)] # [EvAcquire] #
     replicate (attempts (net w) 3) [EvPost (signed_request sec c endpoint body (hexes w 0))] @
     [[EvRelease]]"
  by (simp add: api_request_eq new_events_def atomic_blocks_posts takeWhile_posts dropWhile_posts)

lemma no_signing_in_rest:
  "list_all (\<lambda>b. filter is_signing_event b = [])
     ([EvAcquire] # replicate k [EvPost r] @ [[EvRelease]])"
  by (simp add: list_all_iff)

lemma signing_order:
  "filter is_signing_event
     (concat (interleave pick
        (atomic_blocks (new_events w1 (snd (api_request sec c endpoint1 body1 w1))))
        (atomic_blocks (new_events w2 (snd (api_request sec c endpoint2 body2 w2))))))
   = (if pick 0
      then [EvTokenHex 16 (hexes w1 0), EvSign body1 (hexes w1 0),
            EvTokenHex 16 (hexes w2 0), EvSign body2 (hexes w2 0)]
      else [EvTokenHex 16 (hexes w2 0), EvSign body2 (hexes w2 0),
            EvTokenHex 16 (hexes w1 0), EvSign body1 (hexes w1 0)])"
  unfolding atomic_blocks_api_request
  by (subst filter_concat_interleave_heads [OF no_signing_in_rest no_signing_in_rest]) simp

section \<open>Scope of the lock\<close>

text \<open>
  C1 (counterexample): in a run of \<open>_api_request\<close> the nonce is drawn and the body is signed
  while the lock is not held.
\<close>

theorem C1_signing_outside_lock_counterexample:
  "filter is_signing_event
     (unlocked_events False
        (new_events (example_world (\<lambda>n. envelope 0 ''ok'' (JObj [])))
           (snd (api_request example_security example_cloud ''/v1/iot/secure/getToken'' (JObj [])
                   (example_world (\<lambda>n. envelope 0 ''ok'' (JObj [])))))))
   = [EvTokenHex 16 ''00112233445566778899aabbccddeeff'',
      EvSign (JObj []) ''00112233445566778899aabbccddeeff'']"
  by (simp add: api_request_eq new_events_def example_world_def unlocked_held_posts)

text \<open>
  C1 (amended): every API call draws its nonce and signs the body before it takes the
  instance lock, not inside it; what runs while the lock is held is exactly the POST
  attempts of the retry loop (at least one), after which the lock is released, whether
  the loop returned or raised. The nonce and the signature are produced in the call's
  first uninterrupted piece, since nothing is awaited before the lock is requested. So
  for two calls issued concurrently on the same client, however the scheduler
  interleaves their pieces, nonce generation and signing never interleave: one call's
  nonce and signature come first, followed by the other's.
\<close>

theorem C1_lock_scope:
  "new_events w (snd (api_request sec c endpoint body w)) =
     [EvTokenHex 16 (hexes w 0), EvSign body (hexes w 0), EvAcquire] @
     replicate (attempts (net w) 3) (EvPost (signed_request sec c endpoint body (hexes w 0))) @
     [EvRelease]
   \<and> unlocked_events False (new_events w (snd (api_request sec c endpoint body w))) =
     [EvTokenHex 16 (hexes w 0), EvSign body (hexes w 0)]
   \<and> locked_events False (new_events w (snd (api_request sec c endpoint body w))) =
     replicate (attempts (net w) 3) (EvPost (signed_request sec c endpoint body (hexes w 0)))
   \<and> 0 < attempts (net w) 3
   \<and> atomic_blocks (new_events w (snd (api_request sec c endpoint body w))) =
     [EvTokenHex 16 (hexes w 0), EvSign body (hexes w 0)] # [EvAcquire] #
     replicate (attempts (net w) 3) [EvPost (signed_request sec c endpoint body (hexes w 0))] @
     [[EvRelease]]
   \<and> filter is_signing_event
       (concat (interleave pick
          (atomic_blocks (new_events w (snd (api_request sec c endpoint body w))))
          (atomic_blocks (new_events w2 (snd (api_request sec c endpoint2 body2 w2))))))
     = (if pick 0
        then [EvTokenHex 16 (hexes w 0), EvSign body (hexes w 0),
              EvTokenHex 16 (hexes w2 0), EvSign body2 (hexes w2 0)]
        else [EvTokenHex 16 (hexes w2 0), EvSign body2 (hexes w2 0),
              EvTokenHex 16 (hexes w 0), EvSign body (hexes w 0)])"
proof (intro conjI)
  show "new_events w (snd (api_request sec c endpoint body w)) =
     [EvTokenHex 16 (hexes w 0), EvSign body (hexes w 0), EvAcquire] @
     replicate (attempts (net w) 3) (EvPost (signed_request sec c endpoint body (hexes w 0))) @
     [EvRelease]"
    by (simp add: api_request_eq new_events_def)
  show "unlocked_events False (new_events w (snd (api_request sec c endpoint body w))) =
     [EvTokenHex 16 (hexes w 0), EvSign body (hexes w 0)]"
    by (simp add: api_request_eq new_events_def unlocked_held_posts)
  show "locked_events False (new_events w (snd (api_request sec c endpoint body w))) =
     replicate (attempts (net w) 3) (EvPost (signed_request sec c endpoint body (hexes w 0)))"
    by (simp add: api_request_eq new_events_def locked_held_posts)
  show "0 < attempts (net w) 3" by (rule attempts_3_pos)
  show "atomic_blocks (new_events w (snd (api_request sec c endpoint body w))) =
     [EvTokenHex 16 (hexes w 0), EvSign body (hexes w 0)] # [EvAcquire] #
     replicate (attempts (net w) 3) [EvPost (signed_request sec c endpoint body (hexes w 0))] @
     [[EvRelease]]"
    by (rule atomic_blocks_api_request)
  show "filter is_signing_event
       (concat (interleave pick
          (atomic_blocks (new_events w (snd (api_request sec c endpoint body w))))
          (atomic_blocks (new_events w2 (snd (api_request sec c endpoint2 body2 w2))))))
     = (if pick 0
        then [EvTokenHex 16 (hexes w 0), EvSign body (hexes w 0),
              EvTokenHex 16 (hexes w2 0), EvSign body2 (hexes w2 0)]
        else [EvTokenHex 16 (hexes w2 0), EvSign body2 (hexes w2 0),
              EvTokenHex 16 (hexes w 0), EvSign body (hexes w 0)])"
    by (rule signing_order)
qed

section \<open>Parsing the response envelope\<close>

text \<open>
  C3: an envelope whose integer \<open>code\<close> is 0 parses to its \<open>data\<close>; one whose \<open>code\<close> is
  not 0 raises \<open>ApiError\<close> with the server's \<open>msg\<close> and \<open>code\<close>, and the retry loop ends at
  the attempt that received it, with no further POST.
\<close>

theorem C3_envelope:
  "(loaded r = Some (JObj kvs) \<and> map_of kvs ''code'' = Some (JInt 0) \<and>
      map_of kvs ''data'' = Some d \<longrightarrow> parse_response r = Inr d)
   \<and> (loaded r = Some (JObj kvs) \<and> map_of kvs ''code'' = Some (JInt n) \<and> n \<noteq> 0 \<and>
      map_of kvs ''msg'' = Some m \<longrightarrow>
        parse_response r = Inl (ApiError m n) \<and>
        (k < 3 \<and> (\<forall>i<k. net w i = Raises TimeoutException) \<and> net w k = Returns r \<and>
           \<not> status_error r \<longrightarrow>
             fst (post_request req RETRIES w) = Inl (ApiError m n) \<and>
             trace (snd (post_request req RETRIES w)) = trace w @ replicate (Suc k) (EvPost req)))"
proof (intro conjI impI)
  assume "loaded r = Some (JObj kvs) \<and> map_of kvs ''code'' = Some (JInt 0) \<and>
      map_of kvs ''data'' = Some d"
  then show "parse_response r = Inr d" by (simp add: parse_response_def)
next
  assume a: "loaded r = Some (JObj kvs) \<and> map_of kvs ''code'' = Some (JInt n) \<and> n \<noteq> 0 \<and>
      map_of kvs ''msg'' = Some m"
  then show p: "parse_response r = Inl (ApiError m n)" by (simp add: parse_response_def)
  assume b: "k < 3 \<and> (\<forall>i<k. net w i = Raises TimeoutException) \<and> net w k = Returns r \<and>
           \<not> status_error r"
  then have n: "attempts (net w) 3 = Suc k" by (intro attempts_first_other) auto
  with b p show "fst (post_request req RETRIES w) = Inl (ApiError m n)"
    by (simp add: post_request_RETRIES attempt_result_def raise_for_status_def)
  from n show "trace (snd (post_request req RETRIES w)) = trace w @ replicate (Suc k) (EvPost req)"
    by (simp add: post_request_RETRIES trace_posted_funpow del: funpow.simps)
qed

theorem C3_envelope_witness:
  "parse_response \<lparr>status_error = False,
       loaded = Some (JObj [(''code'', JInt 0), (''msg'', JStr ''ok''), (''data'', JStr ''payload'')])\<rparr>
     = Inr (JStr ''payload'')
   \<and> parse_response \<lparr>status_error = False,
       loaded = Some (JObj [(''code'', JInt 3176), (''msg'', JStr ''bad password''), (''data'', JNull)])\<rparr>
     = Inl (ApiError (JStr ''bad password'') 3176)
   \<and> fst (post_request example_request RETRIES
        (example_world (\<lambda>n. envelope 3176 ''bad password'' JNull)))
     = Inl (ApiError (JStr ''bad password'') 3176)
   \<and> trace (snd (post_request example_request RETRIES
        (example_world (\<lambda>n. envelope 3176 ''bad password'' JNull))))
     = [EvPost example_request]"
  using
    C3_envelope [of "\<lparr>status_error = False,
       loaded = Some (JObj [(''code'', JInt 0), (''msg'', JStr ''ok''), (''data'', JStr ''payload'')])\<rparr>"
       "[(''code'', JInt 0), (''msg'', JStr ''ok''), (''data'', JStr ''payload'')]" "JStr ''payload''"
       0 "JStr ''ok''" 0 "example_world (\<lambda>n. envelope 3176 ''bad password'' JNull)" example_request]
    C3_envelope [of "\<lparr>status_error = False,
       loaded = Some (JObj [(''code'', JInt 3176), (''msg'', JStr ''bad password''), (''data'', JNull)])\<rparr>"
       "[(''code'', JInt 3176), (''msg'', JStr ''bad password''), (''data'', JNull)]" JNull
       3176 "JStr ''bad password''" 0 "example_world (\<lambda>n. envelope 3176 ''bad password'' JNull)"
       example_request]
  by (simp add: example_world_def envelope_def)

section \<open>Login\<close>

lemma get_login_id_posts:
  "posts_of (trace (snd (get_login_id sec c w))) =
     posts_of (trace w) @
     replicate (attempts (net w) 3)
       (signed_request sec c ''/v1/user/login/id/get''
          (JObj (dict_update (required_body w) [(''loginAccount'', JStr (account c))])) (hexes w 1))"
  by (simp add: get_login_id_def build_request_body_eq api_request_eq shift_def
      posts_of_append posts_of_replicate split: sum.splits)

lemma login_exchange_posts:
  "posts_of (trace (snd (snd (login_exchange sec c w)))) =
     posts_of (trace w) @
     replicate (attempts (net w) 3)
       (signed_request sec c ''/mj/user/login'' (fst (login_body sec c w)) (hexes w 1))"
proof -
  obtain body w1 where lb: "login_body sec c w = (body, w1)" by (cases "login_body sec c w")
  then have w1: "w1 = snd (login_body sec c w)" by simp
  show ?thesis
    unfolding login_exchange_def lb
    by (simp add: api_request_eq w1 login_body_world shift_def posts_of_append posts_of_replicate
        Let_def split: sum.splits)
qed

lemma login_exchange_more_posts:
  "length (posts_of (trace w)) < length (posts_of (trace (snd (snd (login_exchange sec c w)))))"
  by (simp add: login_exchange_posts attempts_3_pos)

lemma login_exchange_new_posts:
  "posts_of (new_events w (snd (snd (login_exchange sec c w)))) =
     replicate (attempts (net w) 3)
       (signed_request sec c ''/mj/user/login'' (fst (login_body sec c w)) (hexes w 1))"
proof -
  obtain body w1 where lb: "login_body sec c w = (body, w1)" by (cases "login_body sec c w")
  then have w1: "w1 = snd (login_body sec c w)" by simp
  show ?thesis
    unfolding login_exchange_def lb new_events_def
    by (simp add: api_request_eq w1 login_body_world shift_def posts_of_append posts_of_replicate
        Let_def split: sum.splits)
qed

lemma login_exchange_success:
  assumes "next_request_result w = Inr (JObj resp)"
    and "map_of resp ''mdata'' = Some (JObj md)"
    and "map_of md ''accessToken'' = Some tok"
  shows "fst (login_exchange sec c w) = Inr () \<and>
         fst (snd (login_exchange sec c w)) = c\<lparr>session := JObj resp, access_token := tok\<rparr>"
proof -
  obtain body w1 where lb: "login_body sec c w = (body, w1)" by (cases "login_body sec c w")
  then have "w1 = snd (login_body sec c w)" by simp
  then have "net w1 = net w" by (simp add: login_body_world)
  then have "next_request_result w1 = Inr (JObj resp)"
    using assms(1) by (simp add: next_request_result_def)
  then have "fst (api_request sec c ''/mj/user/login'' body w1) = Inr (JObj resp)"
    by (simp only: api_request_eq fst_conv)
  then obtain w2 where ar: "api_request sec c ''/mj/user/login'' body w1 = (Inr (JObj resp), w2)"
    by (cases "api_request sec c ''/mj/user/login'' body w1") simp
  show ?thesis
    using assms(2,3) by (simp add: login_exchange_def lb ar)
qed

lemma login_exchange_failure:
  assumes "next_request_result w = Inl e"
  shows "fst (login_exchange sec c w) = Inl e \<and> fst (snd (login_exchange sec c w)) = c"
proof -
  obtain body w1 where lb: "login_body sec c w = (body, w1)" by (cases "login_body sec c w")
  then have "w1 = snd (login_body sec c w)" by simp
  then have "net w1 = net w" by (simp add: login_body_world)
  then have "next_request_result w1 = Inl e"
    using assms by (simp add: next_request_result_def)
  then have "fst (api_request sec c ''/mj/user/login'' body w1) = Inl e"
    by (simp only: api_request_eq fst_conv)
  then obtain w2 where ar: "api_request sec c ''/mj/user/login'' body w1 = (Inl e, w2)"
    by (cases "api_request sec c ''/mj/user/login'' body w1") simp
  show ?thesis
    by (simp add: login_exchange_def lb ar)
qed

lemma get_login_id_result:
  "fst (get_login_id sec c w) =
     (case next_request_result w of
        Inl e \<Rightarrow> Inl e
      | Inr response \<Rightarrow>
          if response = JNull then Inl AssertionError else py_getitem response ''loginId'')"
  by (simp add: get_login_id_def build_request_body_eq api_request_eq next_request_result_def
      split: sum.splits)

lemma get_login_id_net: "net (snd (get_login_id sec c w)) = skip_request (net w)"
  by (simp add: get_login_id_def build_request_body_eq api_request_eq skip_request_def
      split: sum.splits)

lemma login_fresh_failure:
  assumes "login_id c = JNull" and "next_request_result w = Inl e"
  shows "fst (login sec c True w) = Inl e \<and> fst (snd (login sec c True w)) = c"
proof -
  obtain res w1 where g: "get_login_id sec c w = (res, w1)" by (cases "get_login_id sec c w")
  with get_login_id_result [of sec c w] assms(2) have "res = Inl e" by simp
  with g assms(1) show ?thesis by (simp add: login_def)
qed

lemma login_fresh_success:
  assumes "login_id c = JNull"
    and "next_request_result w = Inr (JObj r1)"
    and "map_of r1 ''loginId'' = Some lid"
    and "next_request_result (w\<lparr>net := skip_request (net w)\<rparr>) = Inr (JObj resp)"
    and "map_of resp ''mdata'' = Some (JObj md)"
    and "map_of md ''accessToken'' = Some tok"
  shows "fst (login sec c True w) = Inr () \<and>
         fst (snd (login sec c True w)) =
           c\<lparr>login_id := lid, session := JObj resp, access_token := tok\<rparr>"
proof -
  obtain res w1 where g: "get_login_id sec c w = (res, w1)" by (cases "get_login_id sec c w")
  with get_login_id_result [of sec c w] assms(2,3) have res: "res = Inr lid" by simp
  from g get_login_id_net [of sec c w] have "net w1 = net (w\<lparr>net := skip_request (net w)\<rparr>)"
    by simp
  then have "next_request_result w1 = Inr (JObj resp)"
    using assms(4) by (simp add: next_request_result_def)
  from login_exchange_success [OF this assms(5,6), of sec "c\<lparr>login_id := lid\<rparr>"]
  show ?thesis using g res assms(1) by (simp add: login_def)
qed

text \<open>
  C4: with a session held, \<open>login(force=False)\<close> returns at once and leaves the client and
  the world as they were (no POST, no token drawn). \<open>login(force=True)\<close> always posts at
  least one request; when the login id is already known, what it posts is the login
  exchange itself, to the alias \<open>/mj/user/login\<close>, and the reply decides the outcome: a
  successful reply becomes the new session and its access token the new token, and a
  failed request (an API error, a timeout after the retries) is raised and leaves the
  client as it was. Without a login id the id is requested first: its failure is raised
  the same way, and its success is followed by the same exchange.
\<close>

theorem C4_login_idempotence:
  "(py_truthy (session c) \<longrightarrow> login sec c False w = (Inr (), c, w))
   \<and> length (posts_of (trace w)) < length (posts_of (trace (snd (snd (login sec c True w)))))
   \<and> (login_id c \<noteq> JNull \<longrightarrow>
        login sec c True w = login_exchange sec c w \<and>
        posts_of (new_events w (snd (snd (login sec c True w)))) =
          replicate (attempts (net w) 3)
            (signed_request sec c ''/mj/user/login'' (fst (login_body sec c w)) (hexes w 1)) \<and>
        0 < attempts (net w) 3)
   \<and> (login_id c \<noteq> JNull \<and> next_request_result w = Inr (JObj resp) \<and>
      map_of resp ''mdata'' = Some (JObj md) \<and> map_of md ''accessToken'' = Some tok \<longrightarrow>
        fst (login sec c True w) = Inr () \<and>
        fst (snd (login sec c True w)) = c\<lparr>session := JObj resp, access_token := tok\<rparr>)
   \<and> (next_request_result w = Inl e \<longrightarrow>
        fst (login sec c True w) = Inl e \<and> fst (snd (login sec c True w)) = c)
   \<and> (login_id c = JNull \<and> next_request_result w = Inr (JObj idresp) \<and>
      map_of idresp ''loginId'' = Some lid \<and>
      next_request_result (w\<lparr>net := skip_request (net w)\<rparr>) = Inr (JObj resp) \<and>
      map_of resp ''mdata'' = Some (JObj md) \<and> map_of md ''accessToken'' = Some tok \<longrightarrow>
        fst (login sec c True w) = Inr () \<and>
        fst (snd (login sec c True w)) =
          c\<lparr>login_id := lid, session := JObj resp, access_token := tok\<rparr>)"
proof (intro conjI impI)
  assume "py_truthy (session c)"
  then show "login sec c False w = (Inr (), c, w)" by (simp add: login_def)
next
  show "length (posts_of (trace w)) < length (posts_of (trace (snd (snd (login sec c True w)))))"
  proof (cases "login_id c = JNull")
    case False
    then show ?thesis by (simp add: login_def login_exchange_more_posts)
  next
    case True
    obtain res w1 where g: "get_login_id sec c w = (res, w1)" by (cases "get_login_id sec c w")
    have "posts_of (trace w1) = posts_of (trace w) @
       replicate (attempts (net w) 3)
         (signed_request sec c ''/v1/user/login/id/get''
          (JObj (dict_update (required_body w) [(''loginAccount'', JStr (account c))])) (hexes w 1))"
      using get_login_id_posts [of sec c w] g by simp
    then have less: "length (posts_of (trace w)) < length (posts_of (trace w1))"
      by (simp add: attempts_3_pos)
    show ?thesis
    proof (cases res)
      case (Inl e)
      with True g less show ?thesis by (simp add: login_def)
    next
      case (Inr lid)
      have "length (posts_of (trace w1)) <
          length (posts_of (trace (snd (snd (login_exchange sec (c\<lparr>login_id := lid\<rparr>) w1)))))"
        by (rule login_exchange_more_posts)
      with True g Inr less show ?thesis by (simp add: login_def)
    qed
  qed
next
  assume a: "login_id c \<noteq> JNull"
  then show eq: "login sec c True w = login_exchange sec c w" by (simp add: login_def)
  show "posts_of (new_events w (snd (snd (login sec c True w)))) =
          replicate (attempts (net w) 3)
            (signed_request sec c ''/mj/user/login'' (fst (login_body sec c w)) (hexes w 1))"
    unfolding eq by (rule login_exchange_new_posts)
  show "0 < attempts (net w) 3" by (rule attempts_3_pos)
next
  assume a: "login_id c \<noteq> JNull \<and> next_request_result w = Inr (JObj resp) \<and>
      map_of resp ''mdata'' = Some (JObj md) \<and> map_of md ''accessToken'' = Some tok"
  then have eq: "login sec c True w = login_exchange sec c w" by (simp add: login_def)
  from a login_exchange_success [of w resp md tok sec c]
  show "fst (login sec c True w) = Inr ()"
    and "fst (snd (login sec c True w)) = c\<lparr>session := JObj resp, access_token := tok\<rparr>"
    unfolding eq by simp_all
next
  assume a: "next_request_result w = Inl e"
  show "fst (login sec c True w) = Inl e"
  proof (cases "login_id c = JNull")
    case True
    with a login_fresh_failure [of c w e sec] show ?thesis by simp
  next
    case False
    with a login_exchange_failure [of w e sec c] show ?thesis by (simp add: login_def)
  qed
  show "fst (snd (login sec c True w)) = c"
  proof (cases "login_id c = JNull")
    case True
    with a login_fresh_failure [of c w e sec] show ?thesis by simp
  next
    case False
    with a login_exchange_failure [of w e sec c] show ?thesis by (simp add: login_def)
  qed
next
  assume a: "login_id c = JNull \<and> next_request_result w = Inr (JObj idresp) \<and>
      map_of idresp ''loginId'' = Some lid \<and>
      next_request_result (w\<lparr>net := skip_request (net w)\<rparr>) = Inr (JObj resp) \<and>
      map_of resp ''mdata'' = Some (JObj md) \<and> map_of md ''accessToken'' = Some tok"
  from a login_fresh_success [of c w idresp lid resp md tok sec]
  show "fst (login sec c True w) = Inr ()"
    and "fst (snd (login sec c True w)) =
          c\<lparr>login_id := lid, session := JObj resp, access_token := tok\<rparr>"
    by simp_all
qed

theorem C4_login_idempotence_witness:
  "login example_security example_cloud False (example_world (\<lambda>n. envelope 0 ''ok'' (JObj [])))
     = (Inr (), example_cloud, example_world (\<lambda>n. envelope 0 ''ok'' (JObj [])))
   \<and> map url (posts_of (new_events (example_world (\<lambda>n. envelope 0 ''ok'' (JObj [])))
        (snd (snd (login example_security example_cloud True
           (example_world (\<lambda>n. envelope 0 ''ok'' (JObj []))))))))
     = [''https://mp-prod.appsmb.com/mas/v5/app/proxy?alias=/mj/user/login'']
   \<and> fst (login example_security example_cloud True
        (example_world (\<lambda>n. envelope 0 ''ok''
           (JObj [(''mdata'', JObj [(''accessToken'', JStr ''fresh'')])]))))
     = Inr ()
   \<and> fst (snd (login example_security example_cloud True
        (example_world (\<lambda>n. envelope 0 ''ok''
           (JObj [(''mdata'', JObj [(''accessToken'', JStr ''fresh'')])])))))
     = example_cloud\<lparr>session := JObj [(''mdata'', JObj [(''accessToken'', JStr ''fresh'')])],
                     access_token := JStr ''fresh''\<rparr>
   \<and> fst (login example_security example_cloud True
        (example_world (\<lambda>n. envelope 3176 ''bad password'' JNull)))
     = Inl (ApiError (JStr ''bad password'') 3176)
   \<and> fst (snd (login example_security example_cloud True
        (example_world (\<lambda>n. envelope 3176 ''bad password'' JNull))))
     = example_cloud
   \<and> fst (login example_security (Cloud_init None ''user@example.com'' ''secret'' False) True
        (example_world (\<lambda>n. if n = 0 then envelope 0 ''ok'' (JObj [(''loginId'', JStr ''lid'')])
           else envelope 0 ''ok'' (JObj [(''mdata'', JObj [(''accessToken'', JStr ''fresh'')])]))))
     = Inr ()
   \<and> fst (snd (login example_security (Cloud_init None ''user@example.com'' ''secret'' False) True
        (example_world (\<lambda>n. if n = 0 then envelope 0 ''ok'' (JObj [(''loginId'', JStr ''lid'')])
           else envelope 0 ''ok'' (JObj [(''mdata'', JObj [(''accessToken'', JStr ''fresh'')])])))))
     = (Cloud_init None ''user@example.com'' ''secret'' False)
         \<lparr>login_id := JStr ''lid'',
          session := JObj [(''mdata'', JObj [(''accessToken'', JStr ''fresh'')])],
          access_token := JStr ''fresh''\<rparr>"
proof -
  let ?w = "example_world (\<lambda>n. envelope 0 ''ok'' (JObj []))"
  let ?md = "[(''accessToken'', JStr ''fresh'')]"
  let ?resp = "[(''mdata'', JObj ?md)]"
  let ?wok = "example_world (\<lambda>n. envelope 0 ''ok'' (JObj ?resp))"
  let ?wbad = "example_world (\<lambda>n. envelope 3176 ''bad password'' JNull)"
  let ?idresp = "[(''loginId'', JStr ''lid'')]"
  let ?wnew = "example_world (\<lambda>n. if n = 0 then envelope 0 ''ok'' (JObj ?idresp)
           else envelope 0 ''ok'' (JObj ?resp))"
  let ?c0 = "Cloud_init None ''user@example.com'' ''secret'' False"
  have s: "py_truthy (session example_cloud)" by (simp add: example_cloud_def)
  have l: "login_id example_cloud \<noteq> JNull" by (simp add: example_cloud_def)
  have l0: "login_id ?c0 = JNull" by (simp add: Cloud_init_def)
  have k: "attempts (net ?w) 3 = 1"
    by (simp add: example_world_def envelope_def numeral_3_eq_3)
  have rok: "next_request_result ?wok = Inr (JObj ?resp)"
    by (simp add: next_request_result_def example_world_def envelope_def attempt_result_def
        raise_for_status_def parse_response_def numeral_3_eq_3)
  have rbad: "next_request_result ?wbad = Inl (ApiError (JStr ''bad password'') 3176)"
    by (simp add: next_request_result_def example_world_def envelope_def attempt_result_def
        raise_for_status_def parse_response_def numeral_3_eq_3)
  have rid: "next_request_result ?wnew = Inr (JObj ?idresp)"
    by (simp add: next_request_result_def example_world_def envelope_def attempt_result_def
        raise_for_status_def parse_response_def numeral_3_eq_3)
  have rnext: "next_request_result (?wnew\<lparr>net := skip_request (net ?wnew)\<rparr>) = Inr (JObj ?resp)"
    by (simp add: next_request_result_def skip_request_def shift_def example_world_def
        envelope_def attempt_result_def raise_for_status_def parse_response_def numeral_3_eq_3)
  from C4_login_idempotence [of example_cloud example_security ?w] s l
  have 1: "login example_security example_cloud False ?w = (Inr (), example_cloud, ?w)"
    and 2: "posts_of (new_events ?w (snd (snd (login example_security example_cloud True ?w)))) =
          replicate (attempts (net ?w) 3)
            (signed_request example_security example_cloud ''/mj/user/login''
               (fst (login_body example_security example_cloud ?w)) (hexes ?w 1))"
    by blast+
  from 2 k have 3: "map url (posts_of (new_events ?w
        (snd (snd (login example_security example_cloud True ?w))))) =
      [''https://mp-prod.appsmb.com/mas/v5/app/proxy?alias=/mj/user/login'']"
    by (simp add: signed_request_def example_cloud_def)
  have m1: "map_of ?resp ''mdata'' = Some (JObj ?md)" by simp
  have m2: "map_of ?md ''accessToken'' = Some (JStr ''fresh'')" by simp
  have m3: "map_of ?idresp ''loginId'' = Some (JStr ''lid'')" by simp
  from C4_login_idempotence [of example_cloud example_security ?wok ?resp ?md "JStr ''fresh''"]
    l rok m1 m2
  have 4: "fst (login example_security example_cloud True ?wok) = Inr ()"
    and 5: "fst (snd (login example_security example_cloud True ?wok)) =
      example_cloud\<lparr>session := JObj ?resp, access_token := JStr ''fresh''\<rparr>"
    by blast+
  from C4_login_idempotence [of example_cloud example_security ?wbad _ _ _
      "ApiError (JStr ''bad password'') 3176"] rbad
  have 6: "fst (login example_security example_cloud True ?wbad) =
      Inl (ApiError (JStr ''bad password'') 3176)"
    and 7: "fst (snd (login example_security example_cloud True ?wbad)) = example_cloud"
    by blast+
  from C4_login_idempotence [of ?c0 example_security ?wnew ?resp ?md "JStr ''fresh''" _
      ?idresp "JStr ''lid''"] l0 rid rnext m1 m2 m3
  have 8: "fst (login example_security ?c0 True ?wnew) = Inr ()"
    and 9: "fst (snd (login example_security ?c0 True ?wnew)) =
      ?c0\<lparr>login_id := JStr ''lid'', session := JObj ?resp, access_token := JStr ''fresh''\<rparr>"
    by blast+
  from 1 3 4 5 6 7 8 9 show ?thesis by blast
qed

section \<open>Token lookup\<close>

lemma scan_tokens_others:
  "list_all (other_device udpid) toks \<Longrightarrow> scan_tokens (toks @ rest) udpid = scan_tokens rest udpid"
  by (induction toks) (auto simp: other_device_def split: json.splits option.splits)

lemma get_token_result:
  "fst (get_token sec c udpid w) =
     (case next_request_result w of
        Inl e \<Rightarrow> Inl e
      | Inr response \<Rightarrow> find_token response udpid)"
  by (simp add: get_token_def build_request_body_eq api_request_eq next_request_result_def
      split: sum.splits)

text \<open>
  C5: when the request succeeds and every entry of the returned token list names another
  device, \<open>get_token\<close> returns the pair \<open>(None, None)\<close> and raises nothing; when the first
  entry naming the requested device carries a token and a key, it returns that pair.
\<close>

theorem C5_token_lookup:
  "(next_request_result w = Inr (JObj resp) \<and> map_of resp ''tokenlist'' = Some (JArr toks) \<and>
      list_all (other_device udpid) toks \<longrightarrow>
        fst (get_token sec c udpid w) = Inr (JNull, JNull))
   \<and> (next_request_result w = Inr (JObj resp) \<and>
      map_of resp ''tokenlist'' = Some (JArr (toks @ JObj entry # rest)) \<and>
      list_all (other_device udpid) toks \<and> map_of entry ''udpId'' = Some (JStr udpid) \<and>
      map_of entry ''token'' = Some t \<and> map_of entry ''key'' = Some k \<longrightarrow>
        fst (get_token sec c udpid w) = Inr (t, k))"
proof (intro conjI impI)
  assume a: "next_request_result w = Inr (JObj resp) \<and> map_of resp ''tokenlist'' = Some (JArr toks) \<and>
      list_all (other_device udpid) toks"
  then have "scan_tokens toks udpid = Inr (JNull, JNull)"
    using scan_tokens_others [of udpid toks "[]"] by simp
  with a show "fst (get_token sec c udpid w) = Inr (JNull, JNull)"
    by (simp add: get_token_result find_token_def)
next
  assume a: "next_request_result w = Inr (JObj resp) \<and>
      map_of resp ''tokenlist'' = Some (JArr (toks @ JObj entry # rest)) \<and>
      list_all (other_device udpid) toks \<and> map_of entry ''udpId'' = Some (JStr udpid) \<and>
      map_of entry ''token'' = Some t \<and> map_of entry ''key'' = Some k"
  then have "scan_tokens (toks @ JObj entry # rest) udpid = Inr (t, k)"
    by (simp add: scan_tokens_others)
  with a show "fst (get_token sec c udpid w) = Inr (t, k)"
    by (simp add: get_token_result find_token_def)
qed

theorem C5_token_lookup_witness:
  "fst (get_token example_security example_cloud ''Z''
      (example_world (\<lambda>n. envelope 0 ''ok'' (JObj [(''tokenlist'', JArr
         [JObj [(''udpId'', JStr ''A''), (''token'', JStr ''tA''), (''key'', JStr ''kA'')],
          JObj [(''udpId'', JStr ''B''), (''token'', JStr ''tB''), (''key'', JStr ''kB'')]])]))))
     = Inr (JNull, JNull)
   \<and> fst (get_token example_security example_cloud ''B''
      (example_world (\<lambda>n. envelope 0 ''ok'' (JObj [(''tokenlist'', JArr
         [JObj [(''udpId'', JStr ''A''), (''token'', JStr ''tA''), (''key'', JStr ''kA'')],
          JObj [(''udpId'', JStr ''B''), (''token'', JStr ''tB''), (''key'', JStr ''kB'')]])]))))
     = Inr (JStr ''tB'', JStr ''kB'')"
proof -
  let ?A = "JObj [(''udpId'', JStr ''A''), (''token'', JStr ''tA''), (''key'', JStr ''kA'')]"
  let ?B = "[(''udpId'', JStr ''B''), (''token'', JStr ''tB''), (''key'', JStr ''kB'')]"
  let ?resp = "[(''tokenlist'', JArr [?A, JObj ?B])]"
  let ?w = "example_world (\<lambda>n. envelope 0 ''ok'' (JObj ?resp))"
  have r: "next_request_result ?w = Inr (JObj ?resp)"
    by (simp add: next_request_result_def example_world_def envelope_def attempt_result_def
        raise_for_status_def parse_response_def numeral_3_eq_3)
  have z: "list_all (other_device ''Z'') [?A, JObj ?B]" by (simp add: other_device_def)
  have b: "list_all (other_device ''B'') [?A]" by (simp add: other_device_def)
  from C5_token_lookup [of ?w ?resp "[?A, JObj ?B]" "''Z''" example_security example_cloud] r z
  have 1: "fst (get_token example_security example_cloud ''Z'' ?w) = Inr (JNull, JNull)"
    by simp
  from C5_token_lookup [of ?w ?resp "[?A]" "''B''" example_security example_cloud ?B "[]"
      "JStr ''tB''" "JStr ''kB''"] r b
  have 2: "fst (get_token example_security example_cloud ''B'' ?w) = Inr (JStr ''tB'', JStr ''kB'')"
    by simp
  from 1 2 show ?thesis by blast
qed

section \<open>Request bodies\<close>

declare dec.simps [simp del]

lemma digit_char: "k < 10 \<Longrightarrow> is_digit (''0123456789'' ! k)"
proof -
  assume "k < 10"
  then have "k \<in> {0, 1, 2, 3, 4, 5, 6, 7, 8, 9}" by auto
  then show ?thesis by (auto simp: is_digit_def)
qed

lemma dec_digits: "list_all is_digit (dec n)"
proof (induction n rule: dec.induct)
  case (1 n)
  show ?case
  proof (cases "n < 10")
    case True
    then show ?thesis by (subst dec.simps) (simp add: digit_char)
  next
    case False
    with 1 show ?thesis by (subst dec.simps) (simp add: digit_char)
  qed
qed

lemma dec_length: "0 < k \<Longrightarrow> n < 10 ^ k \<Longrightarrow> length (dec n) \<le> k"
proof (induction k arbitrary: n)
  case 0
  then show ?case by simp
next
  case (Suc k)
  show ?case
  proof (cases "n < 10")
    case True
    then show ?thesis by (subst dec.simps) simp
  next
    case False
    then have k: "0 < k" using Suc.prems by (cases k) auto
    from Suc.prems have "n div 10 < 10 ^ k" by (simp add: less_mult_imp_div_less mult.commute)
    with Suc.IH k have "length (dec (n div 10)) \<le> k" by simp
    with False show ?thesis by (subst dec.simps) simp
  qed
qed

lemma zero_pad_length: "0 < k \<Longrightarrow> n < 10 ^ k \<Longrightarrow> length (zero_pad k n) = k"
  using dec_length [of k n] by (simp add: zero_pad_def)

lemma zero_pad_digits: "list_all is_digit (zero_pad k n)"
proof -
  have "is_digit CHR ''0''" by (simp add: is_digit_def)
  then have "list_all is_digit (replicate (k - length (dec n)) CHR ''0'')"
    by (simp add: list_all_iff)
  with dec_digits [of n] show ?thesis by (simp add: zero_pad_def)
qed

text \<open>
  The stamp of a clock reading with a year below 10000 is fourteen decimal digits:
  four for the year, then two each for month, day, hour, minute and second.
\<close>

lemma strftime_YmdHMS_format:
  assumes "year t < 10000" "month t < 100" "day t < 100" "hour t < 100" "minute t < 100"
    "second t < 100"
  shows "length (strftime_YmdHMS t) = 14 \<and> list_all is_digit (strftime_YmdHMS t)"
  using assms zero_pad_length [of 4 "year t"] zero_pad_length [of 2 "month t"]
    zero_pad_length [of 2 "day t"] zero_pad_length [of 2 "hour t"]
    zero_pad_length [of 2 "minute t"] zero_pad_length [of 2 "second t"]
  by (simp add: strftime_YmdHMS_def zero_pad_digits)

lemma map_of_dict_set: "map_of (dict_set d k v) k' = (if k' = k then Some v else map_of d k')"
  by (induction d) auto

lemma map_of_dict_update_keeps:
  "map_of d k \<noteq> None \<Longrightarrow> map_of (dict_update d data) k \<noteq> None"
  by (induction data arbitrary: d) (simp_all add: map_of_dict_set)

lemma get_login_id_new_posts:
  "posts_of (new_events w (snd (get_login_id sec c w))) =
     replicate (attempts (net w) 3)
       (signed_request sec c ''/v1/user/login/id/get''
          (JObj (required_body w @ [(''loginAccount'', JStr (account c))])) (hexes w 1))"
  by (simp add: get_login_id_def build_request_body_eq api_request_eq shift_def new_events_def
      posts_of_append posts_of_replicate required_body_def split: sum.splits)

lemma get_token_new_posts:
  "posts_of (new_events w (snd (get_token sec c udpid w))) =
     replicate (attempts (net w) 3)
       (signed_request sec c ''/v1/iot/secure/getToken''
          (JObj (required_body w @ [(''udpid'', JStr udpid)])) (hexes w 1))"
  by (simp add: get_token_def build_request_body_eq api_request_eq shift_def new_events_def
      posts_of_append posts_of_replicate required_body_def split: sum.splits)

text \<open>
  C6 (counterexample): the body of the login call has only the two top-level fields
  \<open>data\<close> and \<open>iotData\<close>; it is the content of the request that \<open>login\<close> posts, and it
  does not contain the required fields.
\<close>

theorem C6_login_body_counterexample:
  "\<not> has_required_fields
       (fst (login_body example_security example_cloud
          (example_world (\<lambda>n. envelope 0 ''ok'' (JObj [])))))
   \<and> map content (posts_of (new_events (example_world (\<lambda>n. envelope 0 ''ok'' (JObj [])))
        (snd (snd (login example_security example_cloud True
           (example_world (\<lambda>n. envelope 0 ''ok'' (JObj []))))))))
     = [fst (login_body example_security example_cloud
          (example_world (\<lambda>n. envelope 0 ''ok'' (JObj []))))]"
proof -
  let ?w = "example_world (\<lambda>n. envelope 0 ''ok'' (JObj []))"
  have k: "attempts (net ?w) 3 = 1"
    by (simp add: example_world_def envelope_def numeral_3_eq_3)
  have 1: "\<not> has_required_fields (fst (login_body example_security example_cloud ?w))"
    by (simp add: login_body_def token_urlsafe_def token_hex_def timestamp_def emit_def
        has_required_fields_def required_fields_def split_def)
  have "login example_security example_cloud True ?w
      = login_exchange example_security example_cloud ?w"
    by (simp add: login_def example_cloud_def)
  then have 2: "map content (posts_of (new_events ?w
        (snd (snd (login example_security example_cloud True ?w))))) =
      [fst (login_body example_security example_cloud ?w)]"
    by (simp add: login_exchange_new_posts k signed_request_def)
  from 1 2 show ?thesis by blast
qed

text \<open>
  C6 (amended): every body built by \<open>_build_request_body\<close> contains the eight required
  fields, whatever extra data is merged in. The two calls that use it, the login-id
  query and the token query, post exactly these fields (application id 1010, format 2,
  client type 1, language en_US, source 1010, the clock reading formatted as the stamp,
  the fixed client identifier, a fresh random request id) followed by their one extra
  field. The login call builds its body by hand and is not covered: whatever the client
  and the world are, the body of the login exchange lacks required fields, and that body
  is what the exchange posts.
\<close>

theorem C6_required_fields:
  "has_required_fields (JObj (fst (build_request_body data w)))
   \<and> has_required_fields (JObj (required_body w @ added))
   \<and> map content (posts_of (new_events w (snd (get_login_id sec c w)))) =
       replicate (attempts (net w) 3)
         (JObj (required_body w @ [(''loginAccount'', JStr (account c))]))
   \<and> map content (posts_of (new_events w (snd (get_token sec c udpid w)))) =
       replicate (attempts (net w) 3) (JObj (required_body w @ [(''udpid'', JStr udpid)]))
   \<and> 0 < attempts (net w) 3
   \<and> \<not> has_required_fields (fst (login_body sec c w))
   \<and> map content (posts_of (new_events w (snd (snd (login_exchange sec c w))))) =
       replicate (attempts (net w) 3) (fst (login_body sec c w))"
proof (intro conjI)
  have "list_all (\<lambda>k. map_of (required_body w) k \<noteq> None) required_fields"
    by (simp add: required_body_def required_fields_def)
  then show "has_required_fields (JObj (fst (build_request_body data w)))"
    using map_of_dict_update_keeps [of "required_body w" _ data]
    by (auto simp: build_request_body_eq has_required_fields_def list_all_iff)
  show "has_required_fields (JObj (required_body w @ added))"
    by (simp add: has_required_fields_def required_body_def required_fields_def)
  show "map content (posts_of (new_events w (snd (get_login_id sec c w)))) =
       replicate (attempts (net w) 3)
         (JObj (required_body w @ [(''loginAccount'', JStr (account c))]))"
    by (simp add: get_login_id_new_posts signed_request_def)
  show "map content (posts_of (new_events w (snd (get_token sec c udpid w)))) =
       replicate (attempts (net w) 3) (JObj (required_body w @ [(''udpid'', JStr udpid)]))"
    by (simp add: get_token_new_posts signed_request_def)
  show "0 < attempts (net w) 3" by (rule attempts_3_pos)
  show "\<not> has_required_fields (fst (login_body sec c w))"
    by (simp add: login_body_def token_urlsafe_def token_hex_def timestamp_def emit_def
        has_required_fields_def required_fields_def split_def)
  show "map content (posts_of (new_events w (snd (snd (login_exchange sec c w))))) =
       replicate (attempts (net w) 3) (fst (login_body sec c w))"
    by (simp add: login_exchange_new_posts signed_request_def)
qed

section \<open>Constructing a heat pump\<close>

lemma map_of_dict_pop: "map_of (dict_pop d k) k' = (if k' = k then None else map_of d k')"
  by (induction d) (auto simp: dict_pop_def)

text \<open>
  C10: whatever keyword arguments the caller adds (Python binds \<open>ip\<close>, \<open>device_id\<close> and
  \<open>port\<close> to the named parameters, so they are not among them), the constructor succeeds,
  the device type is \<open>HEAT_PUMP\<close>, a \<open>device_type\<close> keyword is dropped without a
  duplicate-keyword error, and \<open>ip\<close>, \<open>port\<close> and \<open>device_id\<close> reach the base class unchanged.
\<close>

theorem C10_device_type_fixed:
  assumes "list_all (\<lambda>k. map_of kwargs k = None) [''ip'', ''port'', ''device_id'']"
  shows "\<exists>hp. HeatPump_init ip0 id0 port0 kwargs = Inr hp \<and>
           device_type hp = HEAT_PUMP \<and> ip hp = ip0 \<and> port hp = port0 \<and> device_id hp = id0 \<and>
           extra hp = dict_pop kwargs ''device_type'' \<and> map_of (extra hp) ''device_type'' = None"
  using assms
  by (simp add: HeatPump_init_def call_Device_init_def map_of_dict_pop HeatPump_fields_def
      Device_init_def Device.extend_def)

theorem C10_device_type_fixed_witness:
  "list_all (\<lambda>k. map_of [(''device_type'', JInt 172), (''sn'', JStr ''x'')] k = None)
     [''ip'', ''port'', ''device_id'']
   \<and> (\<exists>hp. HeatPump_init ''10.0.0.5'' 1234 6444 [(''device_type'', JInt 172), (''sn'', JStr ''x'')]
               = Inr hp \<and>
            device_type hp = HEAT_PUMP \<and> ip hp = ''10.0.0.5'' \<and> port hp = 6444 \<and>
            device_id hp = 1234 \<and> extra hp = [(''sn'', JStr ''x'')])"
proof -
  have h: "list_all (\<lambda>k. map_of [(''device_type'', JInt 172), (''sn'', JStr ''x'')] k = None)
     [''ip'', ''port'', ''device_id'']"
    by simp
  from C10_device_type_fixed [OF h, of "''10.0.0.5''" 1234 6444]
  have "\<exists>hp. HeatPump_init ''10.0.0.5'' 1234 6444 [(''device_type'', JInt 172), (''sn'', JStr ''x'')]
               = Inr hp \<and>
            device_type hp = HEAT_PUMP \<and> ip hp = ''10.0.0.5'' \<and> port hp = 6444 \<and>
            device_id hp = 1234 \<and> extra hp = [(''sn'', JStr ''x'')]"
    by (auto simp: dict_pop_def)
  with h show ?thesis by blast
qed

section \<open>Sending a command\<close>








section \<open>Refreshing the device state\<close>

lemma dec_1: "dec 1 = ''1''"
  by (simp add: dec.simps)

lemma run_steps_append:
  "run_steps (xs @ ys) s =
     (case run_steps xs s of
        (Inl e, s') \<Rightarrow> (Inl e, s')
      | (Inr u, s') \<Rightarrow> run_steps ys s')"
  by (induction xs arbitrary: s) (auto split: sum.splits)

lemma run_steps_failing_step:
  "(\<And>s. st s = Inl e) \<Longrightarrow> fst (run_steps (xs @ st # ys) s) \<noteq> Inr ()"
  by (induction xs arbitrary: s) (auto split: sum.splits)

lemma run_steps_failing_7th:
  "(\<And>s. st s = Inl e) \<Longrightarrow> fst (run_steps (a # b # c # d # f # g # st # ys) s) \<noteq> Inr ()"
  using run_steps_failing_step [of st e "[a, b, c, d, f, g]" ys s] by simp

text \<open>
  Whatever the response holds under the intended attribute names, \<open>_update_state\<close> raises
  unless the response has an attribute whose name is literally \<open>zone1_temp_type)\<close>.
\<close>

lemma update_state_raises:
  assumes "map_of (attrs res) ''zone1_temp_type)'' = None"
  shows "fst (update_state res s) \<noteq> Inr ()"
proof -
  let ?st = "on_zone_1 (assign (\<lambda>v z. z\<lparr>temperature_type := Some v\<rparr>)
        (convert TemperatureType_of (getattr res ''zone1_temp_type)'')))"
  have fails: "\<And>s. ?st s = Inl (AttributeError ''zone1_temp_type)'')"
    using assms by (simp add: on_zone_1_def assign_def convert_def getattr_def)
  show ?thesis
    unfolding update_state_def zone_steps_def dec_1
    by (simp only: list.map append.simps) (rule run_steps_failing_7th, rule fails)
qed

lemma process_other_variant:
  "type' response \<noteq> QUERY_BASIC \<Longrightarrow> process_state_response response s = (Inr (), s)"
  by (simp add: process_state_response_def)

text \<open>
  C9 (the code at a basic-state response): \<open>refresh\<close> raises \<open>AttributeError\<close> for the
  attribute name \<open>zone1_temp_type)\<close>. The statements before it have run (the run mode, the
  three enable flags, and the power and curve state of zone 1 are copied); none after it
  has: the rest of zone 1, all of zone 2, the hot-water and room-thermostat fields, the
  misc flags and the tank temperature keep the values they had.
\<close>

theorem C9_refresh_raises:
  "refresh (\<lambda>d::nat. Inr example_basic_response) (Some [0]) example_heat_pump =
     (Inl (AttributeError ''zone1_temp_type)''),
      example_heat_pump
        \<lparr>online := True, supported := True, run_mode := Some COOL,
         heat_enable := JBool True, cool_enable := JBool True, zone2_enable := JBool False,
         zone_1 := Zone_init\<lparr>power_state := JBool True, curve_state := JBool False\<rparr>\<rparr>)"
  by code_simp

end
